theory Spec2Isabelle
  imports Complex_Main "HOL-Library.Sublist"
begin

section \<open>Python values, errors and outcomes\<close>

text \<open>
  The proxy of \<^verbatim>\<open>main.py\<close> handles two kinds of Python text. A \<^verbatim>\<open>bytes\<close> value
  (everything read from or written to a socket) is a \<^typ>\<open>string\<close>, one \<^typ>\<open>char\<close>
  per byte. A \<^verbatim>\<open>str\<close> value (the decoded request and what is cut out of it) is a
  list of Unicode code points, each a \<^typ>\<open>nat\<close>. Where the source calls a method that
  only one of the two kinds has, the value is tagged (\<open>PyStr\<close>, \<open>PyBytes\<close>) and the
  method raises on the other tag, as Python does.

  An exception is a value of \<open>error\<close>. A call either returns, raises, or never returns
  (a \<^verbatim>\<open>recv\<close> or \<^verbatim>\<open>select\<close> on which no peer ever acts): \<open>Blocks\<close>.
\<close>

datatype error =
  IndexError | ValueError | TypeError | AttributeError | UnicodeDecodeError
| UnicodeEncodeError | OSError

datatype pyval = PyStr "nat list" | PyBytes string

datatype 'a result = Returns 'a | Raises error | Blocks

text \<open>A \<^verbatim>\<open>str\<close> literal of the source, all of whose characters are ASCII.\<close>

definition ascii :: "string \<Rightarrow> nat list" where
  "ascii s = map of_char s"

definition CRLF :: string where
  "CRLF = [CHR 0x0D, CHR 0x0A]"

text \<open>\<^verbatim>\<open>xs[i]\<close> for an index that is not negative.\<close>

definition py_index :: "'a list \<Rightarrow> nat \<Rightarrow> error + 'a" where
  "py_index xs i = (if i < length xs then Inr (xs ! i) else Inl IndexError)"

subsection \<open>UTF-8\<close>

text \<open>
  \<^verbatim>\<open>bytes.decode()\<close> is the strict UTF-8 decoder: sequences of one to four bytes,
  no overlong form, no surrogate, nothing above U+10FFFF; anything else is
  \<open>UnicodeDecodeError\<close>. \<open>utf8_decode\<close> works on the values of the bytes.
\<close>

definition continuation :: "nat \<Rightarrow> bool" where
  "continuation b = (128 \<le> b \<and> b < 192)"

fun utf8_decode :: "nat list \<Rightarrow> nat list option" where
  "utf8_decode [] = Some []"
| "utf8_decode [b] = (if b < 128 then Some [b] else None)"
| "utf8_decode [b, c] =
     (if b < 128 then map_option (Cons b) (utf8_decode [c])
      else if 194 \<le> b \<and> b < 224 \<and> continuation c then Some [(b - 192) * 64 + (c - 128)]
      else None)"
| "utf8_decode [b, c, d] =
     (if b < 128 then map_option (Cons b) (utf8_decode [c, d])
      else if 194 \<le> b \<and> b < 224 \<and> continuation c
      then map_option (Cons ((b - 192) * 64 + (c - 128))) (utf8_decode [d])
      else if 224 \<le> b \<and> b < 240 \<and> continuation c \<and> continuation d
              \<and> (b = 224 \<and> 160 \<le> c \<or> b = 237 \<and> c < 160 \<or> 225 \<le> b \<and> b < 237 \<or> 238 \<le> b)
      then Some [(b - 224) * 4096 + (c - 128) * 64 + (d - 128)]
      else None)"
| "utf8_decode (b # c # d # e # rest) =
     (if b < 128 then map_option (Cons b) (utf8_decode (c # d # e # rest))
      else if 194 \<le> b \<and> b < 224 \<and> continuation c
      then map_option (Cons ((b - 192) * 64 + (c - 128))) (utf8_decode (d # e # rest))
      else if 224 \<le> b \<and> b < 240 \<and> continuation c \<and> continuation d
              \<and> (b = 224 \<and> 160 \<le> c \<or> b = 237 \<and> c < 160 \<or> 225 \<le> b \<and> b < 237 \<or> 238 \<le> b)
      then map_option (Cons ((b - 224) * 4096 + (c - 128) * 64 + (d - 128)))
             (utf8_decode (e # rest))
      else if 240 \<le> b \<and> b < 245 \<and> continuation c \<and> continuation d \<and> continuation e
              \<and> (b = 240 \<and> 144 \<le> c \<or> b = 244 \<and> c < 144 \<or> 241 \<le> b \<and> b < 244)
      then map_option
             (Cons ((b - 240) * 262144 + (c - 128) * 4096 + (d - 128) * 64 + (e - 128)))
             (utf8_decode rest)
      else None)"

text \<open>
  \<^verbatim>\<open>str.encode()\<close> is the UTF-8 encoder; a surrogate is \<open>UnicodeEncodeError\<close>,
  and so is, in the model, a number that is no code point.
\<close>

definition byte :: "nat \<Rightarrow> char" where
  "byte n =
     Char (odd n) (odd (n div 2)) (odd (n div 4)) (odd (n div 8))
          (odd (n div 16)) (odd (n div 32)) (odd (n div 64)) (odd (n div 128))"

definition utf8_encode_cp :: "nat \<Rightarrow> string option" where
  "utf8_encode_cp c =
     (if c < 128 then Some [byte c]
      else if c < 2048 then Some [byte (192 + c div 64), byte (128 + c mod 64)]
      else if 55296 \<le> c \<and> c < 57344 then None
      else if c < 65536 then
        Some [byte (224 + c div 4096), byte (128 + c div 64 mod 64), byte (128 + c mod 64)]
      else if c < 1114112 then
        Some [byte (240 + c div 262144), byte (128 + c div 4096 mod 64),
              byte (128 + c div 64 mod 64), byte (128 + c mod 64)]
      else None)"

fun utf8_encode :: "nat list \<Rightarrow> string option" where
  "utf8_encode [] = Some []"
| "utf8_encode (c # cs) =
     (case utf8_encode_cp c of
        None \<Rightarrow> None
      | Some b \<Rightarrow> map_option (append b) (utf8_encode cs))"

fun py_encode :: "pyval \<Rightarrow> error + string" where
  "py_encode (PyStr s) =
     (case utf8_encode s of Some b \<Rightarrow> Inr b | None \<Rightarrow> Inl UnicodeEncodeError)"
| "py_encode (PyBytes b) = Inl AttributeError"

fun py_decode :: "pyval \<Rightarrow> error + nat list" where
  "py_decode (PyBytes b) =
     (case utf8_decode (map of_char b) of Some s \<Rightarrow> Inr s | None \<Rightarrow> Inl UnicodeDecodeError)"
| "py_decode (PyStr s) = Inl AttributeError"

text \<open>
  \<^verbatim>\<open>time.strftime(format, time.gmtime())\<close>: the format has to be a \<^verbatim>\<open>str\<close>; the
  rendering of the current time under a format is the environment's (\<open>clock\<close>).
\<close>

fun time_strftime :: "(nat list \<Rightarrow> nat list) \<Rightarrow> pyval \<Rightarrow> error + pyval" where
  "time_strftime clock (PyStr fmt) = Inr (PyStr (clock fmt))"
| "time_strftime clock (PyBytes fmt) = Inl TypeError"

section \<open>Text primitives\<close>

text \<open>
  The whitespace of \<^verbatim>\<open>str.split()\<close> and \<^verbatim>\<open>str.strip()\<close>, which is Unicode's, and
  that of \<^verbatim>\<open>bytes.split()\<close> and \<^verbatim>\<open>bytes.strip()\<close>, which is ASCII's.
\<close>

definition str_isspace :: "nat \<Rightarrow> bool" where
  "str_isspace c = (c \<in> set [0x09, 0x0A, 0x0B, 0x0C, 0x0D, 0x1C, 0x1D, 0x1E, 0x1F, 0x20,
      0x85, 0xA0, 0x1680, 0x2000, 0x2001, 0x2002, 0x2003, 0x2004, 0x2005, 0x2006, 0x2007,
      0x2008, 0x2009, 0x200A, 0x2028, 0x2029, 0x202F, 0x205F, 0x3000])"

definition bytes_isspace :: "char \<Rightarrow> bool" where
  "bytes_isspace c = (c \<in> set [CHR 0x09, CHR 0x0A, CHR 0x0B, CHR 0x0C, CHR 0x0D, CHR 0x20])"

text \<open>
  \<^verbatim>\<open>bytes.lower()\<close> touches A to Z only: an upper-case letter differs from its
  lower-case one in bit 5.
\<close>

definition bytes_lower_chr :: "char \<Rightarrow> char" where
  "bytes_lower_chr c = (let n = (of_char c :: nat) in
     if 65 \<le> n \<and> n \<le> 90
     then (case c of Char b0 b1 b2 b3 b4 b5 b6 b7 \<Rightarrow> Char b0 b1 b2 b3 b4 True b6 b7)
     else c)"

definition bytes_lower :: "string \<Rightarrow> string" where
  "bytes_lower s = map bytes_lower_chr s"

text \<open>
  \<^verbatim>\<open>str.lower()\<close> follows Unicode's case tables, which are not reproduced here.
  The source only ever compares lowered text with an ASCII literal, so the model keeps of
  the lowered text what such a comparison can see: an ASCII code point as it is, and
  \<open>None\<close> in the place of any other. A to Z go to a to z and the rest of ASCII stays.
  Outside ASCII, U+0130 lowers to \<^verbatim>\<open>i\<close> followed by U+0307 and U+212A to \<^verbatim>\<open>k\<close>;
  every other code point lowers to one code point outside ASCII.
\<close>

definition str_lower_cp :: "nat \<Rightarrow> nat option list" where
  "str_lower_cp c =
     (if 65 \<le> c \<and> c \<le> 90 then [Some (c + 32)]
      else if c < 128 then [Some c]
      else if c = 0x130 then [Some 105, None]
      else if c = 0x212A then [Some 107]
      else [None])"

definition str_lower :: "nat list \<Rightarrow> nat option list" where
  "str_lower s = concat (map str_lower_cp s)"

text \<open>\<^verbatim>\<open>lowered.startswith(literal)\<close> for an ASCII literal.\<close>

definition lowered_startswith :: "nat option list \<Rightarrow> string \<Rightarrow> bool" where
  "lowered_startswith lowered literal = prefix (map Some (ascii literal)) lowered"

text \<open>
  \<^verbatim>\<open>s.split('\r\n')\<close>, on either kind of text (\<open>cr\<close> and \<open>lf\<close> are the two
  characters of the separator): never the empty list.
\<close>

fun cons_first :: "'a \<Rightarrow> 'a list list \<Rightarrow> 'a list list" where
  "cons_first c [] = [[c]]"
| "cons_first c (r # rs) = (c # r) # rs"

fun split_crlf :: "'a \<Rightarrow> 'a \<Rightarrow> 'a list \<Rightarrow> 'a list list" where
  "split_crlf cr lf [] = [[]]"
| "split_crlf cr lf [c] = [[c]]"
| "split_crlf cr lf (c # d # cs) =
     (if c = cr \<and> d = lf then [] # split_crlf cr lf cs
      else cons_first c (split_crlf cr lf (d # cs)))"

definition str_lines :: "nat list \<Rightarrow> nat list list" where
  "str_lines s = split_crlf 13 10 s"

definition bytes_lines :: "string \<Rightarrow> string list" where
  "bytes_lines s = split_crlf (CHR 0x0D) (CHR 0x0A) s"

text \<open>
  \<^verbatim>\<open>s.split()\<close>: the maximal runs of characters that are not whitespace; \<open>cur\<close> is
  the run being read.
\<close>

fun split_ws :: "('a \<Rightarrow> bool) \<Rightarrow> 'a list \<Rightarrow> 'a list \<Rightarrow> 'a list list" where
  "split_ws sp cur [] = (if cur = [] then [] else [cur])"
| "split_ws sp cur (c # cs) =
     (if sp c then (if cur = [] then split_ws sp [] cs else cur # split_ws sp [] cs)
      else split_ws sp (cur @ [c]) cs)"

definition str_split :: "nat list \<Rightarrow> nat list list" where
  "str_split s = split_ws str_isspace [] s"

definition bytes_split :: "string \<Rightarrow> string list" where
  "bytes_split s = split_ws bytes_isspace [] s"

definition py_strip :: "('a \<Rightarrow> bool) \<Rightarrow> 'a list \<Rightarrow> 'a list" where
  "py_strip sp s = rev (dropWhile sp (rev (dropWhile sp s)))"

definition str_strip :: "nat list \<Rightarrow> nat list" where
  "str_strip s = py_strip str_isspace s"

definition bytes_strip :: "string \<Rightarrow> string" where
  "bytes_strip s = py_strip bytes_isspace s"

text \<open>\<^verbatim>\<open>s.split(sep, 1)\<close> for a separator of one character.\<close>

definition py_split1 :: "'a \<Rightarrow> 'a list \<Rightarrow> 'a list list" where
  "py_split1 sep s =
     (if sep \<in> set s
      then [takeWhile (\<lambda>c. c \<noteq> sep) s, tl (dropWhile (\<lambda>c. c \<noteq> sep) s)]
      else [s])"

text \<open>\<^verbatim>\<open>needle in hay\<close> on text.\<close>

fun contains :: "'a list \<Rightarrow> 'a list \<Rightarrow> bool" where
  "contains needle [] = (needle = [])"
| "contains needle (c # cs) = (prefix needle (c # cs) \<or> contains needle cs)"

section \<open>HTTP message utilities\<close>

definition get_url :: "nat list \<Rightarrow> error + nat list" where
  "get_url request =
     (let lines = str_lines request in
      if lines \<noteq> [] then
        (case py_index lines 0 of
           Inl e \<Rightarrow> Inl e
         | Inr line \<Rightarrow> py_index (str_split line) 1)
      else Inr [])"

definition get_status_code :: "string \<Rightarrow> error + string" where
  "get_status_code response =
     (let lines = bytes_lines response in
      if lines \<noteq> [] then
        (case py_index lines 0 of
           Inl e \<Rightarrow> Inl e
         | Inr line \<Rightarrow> py_index (bytes_split line) 1)
      else Inr [])"

text \<open>The \<^verbatim>\<open>for line in lines\<close> loop of \<^verbatim>\<open>get_host\<close> and the fallback after it.\<close>

fun get_host_lines :: "nat list list \<Rightarrow> error + nat list" where
  "get_host_lines [] = Inr (ascii ''localhost'')"
| "get_host_lines (line # lines) =
     (if lowered_startswith (str_lower line) ''host:'' then
        (case py_index (py_split1 58 line) 1 of
           Inl e \<Rightarrow> Inl e
         | Inr v \<Rightarrow>
            (let host_line = str_strip v in
             if 58 \<in> set host_line then
               (case py_split1 58 host_line of
                  [host, port] \<Rightarrow> Inr (str_strip host)
                | _ \<Rightarrow> Inl ValueError)
             else Inr host_line))
      else get_host_lines lines)"

definition get_host :: "nat list \<Rightarrow> error + nat list" where
  "get_host request = get_host_lines (str_lines request)"

text \<open>
  The loop of \<^verbatim>\<open>get_last_modified\<close> and the fallback after it, which hands
  \<^verbatim>\<open>time.strftime\<close> a \<^verbatim>\<open>bytes\<close> format. The function returns what it finds:
  the \<^verbatim>\<open>bytes\<close> of the header, or whatever \<^verbatim>\<open>time.strftime\<close> gives.
\<close>

fun get_last_modified_lines :: "(nat list \<Rightarrow> nat list) \<Rightarrow> string list \<Rightarrow> error + pyval" where
  "get_last_modified_lines clock [] =
     time_strftime clock (PyBytes ''%a, %d %b %Y %H:%M:%S GMT'')"
| "get_last_modified_lines clock (line # lines) =
     (if prefix ''last-modified:'' (bytes_lower line) then
        (case py_index (py_split1 CHR '':'' line) 1 of
           Inl e \<Rightarrow> Inl e
         | Inr v \<Rightarrow> Inr (PyBytes (bytes_strip v)))
      else get_last_modified_lines clock lines)"

definition get_last_modified :: "(nat list \<Rightarrow> nat list) \<Rightarrow> string \<Rightarrow> error + pyval" where
  "get_last_modified clock request = get_last_modified_lines clock (bytes_lines request)"

section \<open>Sockets, the environment and the server state\<close>

text \<open>
  What the handler does to its sockets is recorded as a list of events, in the order of
  the calls. \<open>Send\<close> and \<open>Sendall\<close> carry the buffer handed to \<^verbatim>\<open>send\<close> and
  \<^verbatim>\<open>sendall\<close>; \<open>Recv\<close> carries what \<^verbatim>\<open>recv\<close> returned; \<open>Connect\<close> carries
  the host and the port handed to \<^verbatim>\<open>connect\<close>. Log lines are left out.

  The environment of one connection fixes what the peers do: the first read from the
  client, whether a \<^verbatim>\<open>connect\<close> to a host and port succeeds, the results of the
  successive \<^verbatim>\<open>recv\<close> calls on an origin socket once the request is sent (a read
  past the end of that list never returns), the successive results of \<^verbatim>\<open>select\<close>
  in the tunnel with what \<^verbatim>\<open>recv\<close> then gives on each ready socket, and the clock.
\<close>

datatype sock = Client | Origin

datatype event =
  Connect "nat list" nat | Recv sock string | Send sock string | Sendall sock string
| Close sock

record world =
  first_read :: string
  accepts :: "nat list \<Rightarrow> nat \<Rightarrow> bool"
  reads :: "nat list \<Rightarrow> nat \<Rightarrow> string \<Rightarrow> string list"
  rlists :: "(sock \<times> string) list list"
  start_time :: real
  end_time :: real
  clock :: "nat list \<Rightarrow> nat list"

text \<open>
  A cache entry is the list \<^verbatim>\<open>[response, last_modified, execution_time]\<close>; its
  second element is whatever \<^verbatim>\<open>get_last_modified\<close> returned.
\<close>

record cache_entry =
  rawResponse :: string
  lastModified :: pyval
  fetchLatency :: real

record server =
  cache :: "nat list \<rightharpoonup> cache_entry"
  blocked_urls :: "nat list set"

definition HTTP_PORT :: nat where
  "HTTP_PORT = 80"

definition HTTPS_PORT :: nat where
  "HTTPS_PORT = 443"

definition established :: string where
  "established = ''HTTP/1.1 200 Connection Established'' @ CRLF @ CRLF"

definition blocked_response :: string where
  "blocked_response =
     ''HTTP/1.1 403 Forbidden'' @ CRLF @
     ''Content-Type: text/html'' @ CRLF @ CRLF @
     ''<html><head><title>403 Forbidden</title></head><body><h1>403 Forbidden</h1><p>This page has been blocked by the proxy server.</p></body></html>''"

section \<open>Forwarding client\<close>

fun recv_all :: "string list \<Rightarrow> string \<Rightarrow> string result \<times> event list" where
  "recv_all [] data = (Blocks, [])"
| "recv_all (chunk # chunks) data =
     (if chunk = [] then (Returns data, [Recv Origin chunk])
      else (case recv_all chunks (data @ chunk) of
              (r, ev) \<Rightarrow> (r, Recv Origin chunk # ev)))"

definition forward_to_server :: "world \<Rightarrow> nat list \<Rightarrow> bool \<Rightarrow> string result \<times> event list" where
  "forward_to_server w request conditional_get =
     (case get_host request of
        Inl e \<Rightarrow> (Raises e, [])
      | Inr target_host \<Rightarrow>
         if accepts w target_host HTTP_PORT then
           (case py_encode (PyStr request) of
              Inl e \<Rightarrow> (Raises e, [Connect target_host HTTP_PORT])
            | Inr data \<Rightarrow>
               (let ev = [Connect target_host HTTP_PORT, Sendall Origin data];
                    script = reads w target_host HTTP_PORT data
                in if conditional_get then
                     (case script of
                        [] \<Rightarrow> (Blocks, ev)
                      | server_response # _ \<Rightarrow>
                          (Returns server_response,
                           ev @ [Recv Origin server_response, Close Origin]))
                   else
                     (case recv_all script [] of
                        (Returns server_response, ev') \<Rightarrow>
                          (Returns server_response, ev @ ev' @ [Close Origin])
                      | (Raises e, ev') \<Rightarrow> (Raises e, ev @ ev')
                      | (Blocks, ev') \<Rightarrow> (Blocks, ev @ ev'))))
         else (Raises OSError, [Connect target_host HTTP_PORT]))"

section \<open>HTTPS tunnel\<close>

text \<open>
  One pass of \<^verbatim>\<open>for s in rlist\<close>; the flag says that the function returned inside
  the pass.
\<close>

fun relay_rlist :: "(sock \<times> string) list \<Rightarrow> bool \<times> event list" where
  "relay_rlist [] = (False, [])"
| "relay_rlist ((s, data) # rest) =
     (if data = [] then (True, [Recv s data, Close Client, Close Origin])
      else (case relay_rlist rest of
              (returned, ev) \<Rightarrow>
                (returned,
                 Recv s data # Send (if s = Client then Origin else Client) data # ev)))"

fun relay_https :: "(sock \<times> string) list list \<Rightarrow> unit result \<times> event list" where
  "relay_https [] = (Blocks, [])"
| "relay_https (rlist # later) =
     (case relay_rlist rlist of
        (True, ev) \<Rightarrow> (Returns (), ev)
      | (False, ev) \<Rightarrow> (case relay_https later of (r, ev') \<Rightarrow> (r, ev @ ev')))"

definition handle_https :: "world \<Rightarrow> nat list \<Rightarrow> unit result \<times> event list" where
  "handle_https w request =
     (case get_host request of
        Inl e \<Rightarrow> (Raises e, [])
      | Inr target_host \<Rightarrow>
         if accepts w target_host HTTPS_PORT then
           (case relay_https (rlists w) of
              (r, ev) \<Rightarrow> (r, [Connect target_host HTTPS_PORT, Send Client established] @ ev))
         else (Raises OSError, [Connect target_host HTTPS_PORT]))"

section \<open>Connection handler\<close>

definition conditional_request :: "nat list \<Rightarrow> nat list \<Rightarrow> nat list \<Rightarrow> nat list" where
  "conditional_request target_url target_host since =
     ascii ''GET '' @ target_url @ ascii ('' HTTP/1.1'' @ CRLF) @
     ascii ''Host: '' @ target_host @ ascii CRLF @
     ascii ''If-Modified-Since: '' @ since @ ascii (CRLF @ CRLF)"

text \<open>
  The branch of a target that is neither blocked nor cached and whose request does not
  hold \<^verbatim>\<open>CONNECT\<close> (lines 137 to 147), and the branch taken when the conditional
  probe is not answered with 304 (lines 120 to 130). The second hands the fetched
  \<^verbatim>\<open>bytes\<close> to \<^verbatim>\<open>encode\<close> before it sends them. \<open>ev\<close> holds the events so far.
\<close>

definition fetch_uncached ::
  "world \<Rightarrow> server \<Rightarrow> nat list \<Rightarrow> nat list \<Rightarrow> event list \<Rightarrow> unit result \<times> server \<times> event list" where
  "fetch_uncached w s request target_url ev =
     (case forward_to_server w request False of
        (Raises e, ev') \<Rightarrow> (Raises e, s, ev @ ev')
      | (Blocks, ev') \<Rightarrow> (Blocks, s, ev @ ev')
      | (Returns response, ev') \<Rightarrow>
         (let execution_time = end_time w - start_time w in
          case get_last_modified (clock w) response of
            Inl e \<Rightarrow> (Raises e, s, ev @ ev' @ [Sendall Client response])
          | Inr last_modified \<Rightarrow>
             (Returns (),
              s\<lparr>cache := (cache s)(target_url \<mapsto>
                   \<lparr>rawResponse = response, lastModified = last_modified,
                    fetchLatency = execution_time\<rparr>)\<rparr>,
              ev @ ev' @ [Sendall Client response, Close Client])))"

definition fetch_stale ::
  "world \<Rightarrow> server \<Rightarrow> nat list \<Rightarrow> nat list \<Rightarrow> event list \<Rightarrow> unit result \<times> server \<times> event list" where
  "fetch_stale w s request target_url ev =
     (case forward_to_server w request False of
        (Raises e, ev') \<Rightarrow> (Raises e, s, ev @ ev')
      | (Blocks, ev') \<Rightarrow> (Blocks, s, ev @ ev')
      | (Returns response, ev') \<Rightarrow>
         (case py_encode (PyBytes response) of
            Inl e \<Rightarrow> (Raises e, s, ev @ ev')
          | Inr encoded \<Rightarrow>
             (let execution_time = end_time w - start_time w in
              case get_last_modified (clock w) response of
                Inl e \<Rightarrow> (Raises e, s, ev @ ev' @ [Sendall Client encoded])
              | Inr last_modified \<Rightarrow>
                 (Returns (),
                  s\<lparr>cache := (cache s)(target_url \<mapsto>
                       \<lparr>rawResponse = response, lastModified = last_modified,
                        fetchLatency = execution_time\<rparr>)\<rparr>,
                  ev @ ev' @ [Sendall Client encoded, Close Client]))))"

definition handle_request :: "world \<Rightarrow> server \<Rightarrow> unit result \<times> server \<times> event list" where
  "handle_request w s =
     (let ev0 = [Recv Client (first_read w)] in
      case py_decode (PyBytes (first_read w)) of
        Inl e \<Rightarrow> (Raises e, s, ev0)
      | Inr request \<Rightarrow>
         if request = [] then (Returns (), s, ev0 @ [Close Client])
         else
          (case get_url request of
             Inl e \<Rightarrow> (Raises e, s, ev0)
           | Inr target_url \<Rightarrow>
              (case get_host request of
                 Inl e \<Rightarrow> (Raises e, s, ev0)
               | Inr target_host \<Rightarrow>
                  if target_url \<in> blocked_urls s then
                    (Returns (), s,
                     ev0 @ (if contains (ascii ''CONNECT'') request
                            then [Send Client established] else [])
                         @ [Sendall Client blocked_response, Close Client])
                  else
                   (case cache s target_url of
                      Some entry \<Rightarrow>
                       (case py_decode (lastModified entry) of
                          Inl e \<Rightarrow> (Raises e, s, ev0)
                        | Inr since \<Rightarrow>
                           (case forward_to_server w
                                   (conditional_request target_url target_host since) True of
                              (Raises e, ev) \<Rightarrow> (Raises e, s, ev0 @ ev)
                            | (Blocks, ev) \<Rightarrow> (Blocks, s, ev0 @ ev)
                            | (Returns conditional_response, ev) \<Rightarrow>
                               (case get_status_code conditional_response of
                                  Inl e \<Rightarrow> (Raises e, s, ev0 @ ev)
                                | Inr code \<Rightarrow>
                                   if code = ''304'' then
                                     (Returns (), s,
                                      ev0 @ ev @ [Sendall Client (rawResponse entry), Close Client])
                                   else fetch_stale w s request target_url (ev0 @ ev))))
                    | None \<Rightarrow>
                       if contains (ascii ''CONNECT'') request then
                         (case handle_https w request of
                            (Returns u, ev) \<Rightarrow> (Returns (), s, ev0 @ ev @ [Close Client])
                          | (Raises e, ev) \<Rightarrow> (Raises e, s, ev0 @ ev)
                          | (Blocks, ev) \<Rightarrow> (Blocks, s, ev0 @ ev))
                       else fetch_uncached w s request target_url ev0))))"

section \<open>Listener\<close>

text \<open>
  \<^verbatim>\<open>start\<close> accepts connections for ever and gives each to a thread of its own, whose
  outcome it never looks at. The model takes the accepted connections as a list, runs the
  handlers one after the other in the order of acceptance, and keeps the events of each;
  once the list is used up, \<^verbatim>\<open>accept\<close> does not return.
\<close>

fun start :: "world list \<Rightarrow> server \<Rightarrow> unit result \<times> server \<times> event list list" where
  "start [] s = (Blocks, s, [])"
| "start (w # ws) s =
     (case handle_request w s of
        (r, s', ev) \<Rightarrow>
          (case start ws s' of (r', s'', evs) \<Rightarrow> (r', s'', ev # evs)))"

section \<open>Notions used to state the properties\<close>

text \<open>
  The request method is the first token of the request line. The source never computes
  it; it serves to say what a \<^verbatim>\<open>CONNECT\<close> request is.
\<close>

definition request_method :: "nat list \<Rightarrow> error + nat list" where
  "request_method request = py_index (str_split (hd (str_lines request))) 0"

text \<open>
  A header value without its port, as the specification words it: a colon followed by
  nothing but digits at the end of the value is taken off. The source does not compute it.
\<close>

definition strip_port_suffix :: "nat list \<Rightarrow> nat list" where
  "strip_port_suffix v =
     (case dropWhile (\<lambda>c. 48 \<le> c \<and> c \<le> 57) (rev v) of
        [] \<Rightarrow> v
      | c # pre \<Rightarrow> if c = 58 then rev pre else v)"

text \<open>
  The buffers handed to \<^verbatim>\<open>send\<close> on a socket and those returned by \<^verbatim>\<open>recv\<close> on
  a socket, in the order of the calls, and the events of a run of reads that are all
  forwarded.
\<close>

fun sends :: "sock \<Rightarrow> event list \<Rightarrow> string list" where
  "sends s [] = []"
| "sends s (Send s' d # ev) = (if s' = s then d # sends s ev else sends s ev)"
| "sends s (e # ev) = sends s ev"

fun recvs :: "sock \<Rightarrow> event list \<Rightarrow> string list" where
  "recvs s [] = []"
| "recvs s (Recv s' d # ev) = (if s' = s then d # recvs s ev else recvs s ev)"
| "recvs s (e # ev) = recvs s ev"

definition forwarded :: "(sock \<times> string) list \<Rightarrow> event list" where
  "forwarded l =
     concat (map (\<lambda>(s, d). [Recv s d, Send (if s = Client then Origin else Client) d]) l)"

section \<open>Example connections\<close>

text \<open>
  Concrete environments and server states at which the properties below are evaluated:
  an origin that accepts every connection and answers with a fixed list of reads, and a
  tunnel in which the client sends, the origin answers and the client closes.
\<close>

definition example_world :: "string \<Rightarrow> string list \<Rightarrow> world" where
  "example_world request script =
     \<lparr>first_read = request, accepts = (\<lambda>h p. True), reads = (\<lambda>h p d. script),
      rlists = [[(Client, ''hello'')], [(Origin, ''world''), (Client, [])]],
      start_time = 0, end_time = 1, clock = (\<lambda>f. [])\<rparr>"

definition connect_request :: string where
  "connect_request =
     ''CONNECT example.com:443 HTTP/1.1'' @ CRLF @ ''Host: example.com:443'' @ CRLF @ CRLF"

definition get_request :: string where
  "get_request = ''GET http://example.com/ HTTP/1.1'' @ CRLF @ ''Host: example.com'' @ CRLF @ CRLF"

text \<open>Requests with text outside ASCII: an accented letter in the target, a no-break space.\<close>

definition accented_request :: string where
  "accented_request =
     ''CONNECT caf'' @ [CHR 0xC3, CHR 0xA9] @ ''.example:443 HTTP/1.1'' @ CRLF @
     ''Host: caf'' @ [CHR 0xC3, CHR 0xA9] @ ''.example:443'' @ CRLF @ CRLF"

definition accented_get :: string where
  "accented_get =
     ''GET http://example.com/caf'' @ [CHR 0xC3, CHR 0xA9] @ '' HTTP/1.1'' @ CRLF @
     ''Host: example.com'' @ CRLF @ CRLF"

definition one_token_request :: string where
  "one_token_request = ''GET'' @ [CHR 0xC2, CHR 0xA0]"

definition cached_server :: server where
  "cached_server =
     \<lparr>cache = [ascii ''http://example.com/'' \<mapsto>
        \<lparr>rawResponse = ''HTTP/1.1 200 OK'' @ CRLF @ CRLF @ ''OLD'',
         lastModified = PyBytes ''Mon, 01 Jan 2024 00:00:00 GMT'', fetchLatency = 1\<rparr>],
      blocked_urls = {}\<rparr>"

definition not_modified :: string where
  "not_modified = ''HTTP/1.1 304 Not Modified'' @ CRLF @ CRLF"

definition fresh_response :: string where
  "fresh_response =
     ''HTTP/1.1 200 OK'' @ CRLF @ ''Last-Modified: Tue, 02 Jan 2024 00:00:00 GMT'' @ CRLF @ CRLF @ ''NEW''"

definition odd_request :: string where
  "odd_request =
     ''GET http://example.com/CONNECT HTTP/1.1'' @ CRLF @ ''Host: example.com'' @ CRLF @ CRLF"

definition lower_case_request :: string where
  "lower_case_request =
     ''connect example.com:443 HTTP/1.1'' @ CRLF @ ''Host: example.com:443'' @ CRLF @ CRLF"

definition plain_response :: string where
  "plain_response = ''HTTP/1.1 200 OK'' @ CRLF @ CRLF @ ''NEW''"

definition probe_request :: string where
  "probe_request =
     ''GET http://example.com/ HTTP/1.1'' @ [CHR 0x0D, CHR 0x0A] @
     ''Host: example.com'' @ [CHR 0x0D, CHR 0x0A] @
     ''If-Modified-Since: Mon, 01 Jan 2024 00:00:00 GMT'' @ [CHR 0x0D, CHR 0x0A, CHR 0x0D, CHR 0x0A]"

section \<open>Text primitives: auxiliary facts\<close>

lemma py_index_hd: "xs \<noteq> [] \<Longrightarrow> py_index xs 0 = Inr (hd xs)"
  by (simp add: py_index_def hd_conv_nth)

lemma split_crlf_nonempty: "split_crlf cr lf r \<noteq> []"
  by (induction cr lf r rule: split_crlf.induct) (auto split: list.splits elim: cons_first.elims)

lemma hd_cons_first: "rs \<noteq> [] \<Longrightarrow> hd (cons_first c rs) = c # hd rs"
  by (cases rs) auto

lemma hd_split_crlf_prefix: "prefix (hd (split_crlf cr lf r)) r"
  by (induction cr lf r rule: split_crlf.induct) (auto simp: hd_cons_first split_crlf_nonempty)

text \<open>Every token is a contiguous piece of the text it is cut from.\<close>

lemma split_ws_sublist: "t \<in> set (split_ws sp cur l) \<Longrightarrow> sublist t (cur @ l)"
proof (induction l arbitrary: cur)
  case Nil
  then show ?case by (auto split: if_splits)
next
  case (Cons c cs)
  show ?case
  proof (cases "sp c")
    case True
    show ?thesis
    proof (cases "cur = []")
      case True
      with \<open>sp c\<close> Cons.prems have "t \<in> set (split_ws sp [] cs)" by simp
      then have "sublist t cs" using Cons.IH [of "[]"] by simp
      then show ?thesis using True by (simp add: sublist_Cons_right)
    next
      case False
      with \<open>sp c\<close> Cons.prems have "t = cur \<or> t \<in> set (split_ws sp [] cs)" by simp
      then show ?thesis
      proof
        assume "t = cur"
        then show ?thesis by simp
      next
        assume "t \<in> set (split_ws sp [] cs)"
        then have "sublist t cs" using Cons.IH [of "[]"] by simp
        then have "sublist t (c # cs)" by (simp add: sublist_Cons_right)
        then show ?thesis by (simp add: sublist_append)
      qed
    qed
  next
    case False
    with Cons.prems have "t \<in> set (split_ws sp (cur @ [c]) cs)" by simp
    then show ?thesis using Cons.IH [of "cur @ [c]"] by simp
  qed
qed

lemma contains_iff_sublist: "contains n h \<longleftrightarrow> sublist n h"
  by (induction h) (auto simp: sublist_Cons_right)

text \<open>
  What an ASCII code point at the head of lowered text says about the text that was
  lowered, as long as it is neither \<^verbatim>\<open>i\<close> nor \<^verbatim>\<open>k\<close>.
\<close>

lemma lowered_head:
  assumes "prefix (Some x # p) (str_lower line)" and "x \<noteq> 105" and "x \<noteq> 107"
  shows "\<exists>a l. line = a # l \<and> (a = x \<or> a + 32 = x \<and> 65 \<le> a \<and> a \<le> 90)
           \<and> prefix p (str_lower l)"
proof (cases line)
  case Nil
  with assms(1) show ?thesis by (simp add: str_lower_def)
next
  case (Cons a l)
  have e: "str_lower line = str_lower_cp a @ str_lower l"
    by (simp add: Cons str_lower_def)
  consider "65 \<le> a \<and> a \<le> 90" | "\<not> (65 \<le> a \<and> a \<le> 90)" "a < 128"
    | "\<not> a < 128" "a = 0x130" | "\<not> a < 128" "a \<noteq> 0x130" "a = 0x212A"
    | "\<not> a < 128" "a \<noteq> 0x130" "a \<noteq> 0x212A"
    by linarith
  then show ?thesis
  proof cases
    case 1
    then have "str_lower_cp a = [Some (a + 32)]" by (simp add: str_lower_cp_def)
    with assms(1) e have "a + 32 = x" "prefix p (str_lower l)" by simp_all
    with 1 Cons show ?thesis by blast
  next
    case 2
    then have "str_lower_cp a = [Some a]" by (auto simp: str_lower_cp_def)
    with assms(1) e have "a = x" "prefix p (str_lower l)" by simp_all
    with Cons show ?thesis by blast
  next
    case 3
    then have "str_lower_cp a = [Some 105, None]" by (simp add: str_lower_cp_def)
    with assms(1,2) e show ?thesis by simp
  next
    case 4
    then have "str_lower_cp a = [Some 107]" by (simp add: str_lower_cp_def)
    with assms(1,3) e show ?thesis by simp
  next
    case 5
    then have "str_lower_cp a = [None]" by (simp add: str_lower_cp_def)
    with assms(1) e show ?thesis by simp
  qed
qed

text \<open>A line that passes the test of \<^verbatim>\<open>get_host\<close> has its first colon at index 4.\<close>

lemma prefix_host_shape:
  assumes "lowered_startswith (str_lower line) ''host:''"
  shows "\<exists>a b c d rest. line = a # b # c # d # 58 # rest \<and>
           a \<noteq> 58 \<and> b \<noteq> 58 \<and> c \<noteq> 58 \<and> d \<noteq> 58"
proof -
  from assms have p: "prefix [Some 104, Some 111, Some 115, Some 116, Some 58] (str_lower line)"
    by (simp add: lowered_startswith_def ascii_def)
  from lowered_head [OF p] obtain a l1 where 1: "line = a # l1" "a \<noteq> 58"
    and p1: "prefix [Some 111, Some 115, Some 116, Some 58] (str_lower l1)" by auto
  from lowered_head [OF p1] obtain b l2 where 2: "l1 = b # l2" "b \<noteq> 58"
    and p2: "prefix [Some 115, Some 116, Some 58] (str_lower l2)" by auto
  from lowered_head [OF p2] obtain c l3 where 3: "l2 = c # l3" "c \<noteq> 58"
    and p3: "prefix [Some 116, Some 58] (str_lower l3)" by auto
  from lowered_head [OF p3] obtain d l4 where 4: "l3 = d # l4" "d \<noteq> 58"
    and p4: "prefix [Some 58] (str_lower l4)" by auto
  from lowered_head [OF p4] obtain e rest where 5: "l4 = e # rest" "e = 58" by auto
  from 1 2 3 4 5 show ?thesis by blast
qed

lemma host_line_value:
  assumes "lowered_startswith (str_lower line) ''host:''"
  shows "py_index (py_split1 58 line) 1 = Inr (drop 5 line)"
proof -
  from prefix_host_shape [OF assms] obtain a b c d rest where
    l: "line = a # b # c # d # 58 # rest" and n: "a \<noteq> 58" "b \<noteq> 58" "c \<noteq> 58" "d \<noteq> 58"
    by blast
  have "py_split1 58 line = [[a, b, c, d], rest]"
    unfolding py_split1_def l using n by simp
  then show ?thesis by (simp add: py_index_def l)
qed

lemma py_split1_pair:
  "sep \<in> set v \<Longrightarrow>
   py_split1 sep v = [takeWhile (\<lambda>c. c \<noteq> sep) v, tl (dropWhile (\<lambda>c. c \<noteq> sep) v)]"
  by (simp add: py_split1_def)

lemma get_host_lines_find:
  "get_host_lines lines =
     Inr (case find (\<lambda>l. lowered_startswith (str_lower l) ''host:'') lines of
            None \<Rightarrow> ascii ''localhost''
          | Some line \<Rightarrow>
              (let v = str_strip (drop 5 line) in
               if 58 \<in> set v then str_strip (takeWhile (\<lambda>c. c \<noteq> 58) v) else v))"
proof (induction lines)
  case Nil
  show ?case by simp
next
  case (Cons line lines)
  show ?case
  proof (cases "lowered_startswith (str_lower line) ''host:''")
    case True
    have "get_host_lines (line # lines) =
       (let host_line = str_strip (drop 5 line) in
        if 58 \<in> set host_line then
          (case py_split1 58 host_line of
             [host, port] \<Rightarrow> Inr (str_strip host) | _ \<Rightarrow> Inl ValueError)
        else Inr host_line)"
      using True by (simp only: get_host_lines.simps host_line_value [OF True] if_True sum.case)
    also have "\<dots> = Inr (let v = str_strip (drop 5 line) in
               if 58 \<in> set v then str_strip (takeWhile (\<lambda>c. c \<noteq> 58) v) else v)"
      by (simp only: Let_def py_split1_pair list.case if_distrib [of Inr] cong: if_cong)
    finally show ?thesis using True by (simp only: find.simps if_True option.case)
  next
    case False
    then show ?thesis using Cons.IH by (simp only: get_host_lines.simps find.simps if_False)
  qed
qed

lemma get_host_total: "\<exists>h. get_host request = Inr h"
  by (simp add: get_host_def get_host_lines_find)

lemmas text_defs =
  ascii_def CRLF_def py_index_def py_split1_def py_strip_def continuation_def byte_def
  utf8_encode_cp_def
  str_isspace_def str_lower_def str_lower_cp_def lowered_startswith_def str_lines_def
  str_split_def str_strip_def
  bytes_isspace_def bytes_lower_def bytes_lower_chr_def bytes_lines_def bytes_split_def
  bytes_strip_def

section \<open>HTTP message utilities: properties\<close>

text \<open>
  What the two helpers do in general: the status code is the second token of the first
  line whenever there is one, and a response without a \<^verbatim>\<open>Last-Modified\<close> line
  always ends in the \<^verbatim>\<open>strftime\<close> call.
\<close>

lemma get_status_code_second_token:
  "2 \<le> length (bytes_split (hd (bytes_lines response))) \<Longrightarrow>
   get_status_code response = Inr (bytes_split (hd (bytes_lines response)) ! 1)"
  by (simp add: get_status_code_def bytes_lines_def split_crlf_nonempty py_index_hd)
     (simp add: py_index_def)

lemma get_last_modified_lines_absent:
  "\<not> list_ex (\<lambda>l. prefix ''last-modified:'' (bytes_lower l)) lines \<Longrightarrow>
   get_last_modified_lines clk lines = Inl TypeError"
  by (induction lines) simp_all

lemma get_last_modified_absent:
  "\<not> list_ex (\<lambda>l. prefix ''last-modified:'' (bytes_lower l)) (bytes_lines response) \<Longrightarrow>
   get_last_modified clk response = Inl TypeError"
  by (simp add: get_last_modified_def get_last_modified_lines_absent)

text \<open>
  C5. \<^verbatim>\<open>get_status_code\<close> gives the second token of the status line, \<^verbatim>\<open>304\<close> for a
  304 response. On the empty response it does not give empty bytes: the list of lines is
  \<^verbatim>\<open>[b'']\<close>, never empty, so the guard \<^verbatim>\<open>if lines\<close> holds, the first line has no
  token, and the index raises \<open>IndexError\<close>.
\<close>

theorem get_status_code_empty_raises:
  "get_status_code [] = Inl IndexError \<and>
   get_status_code (''HTTP/1.1 304 Not Modified'' @ CRLF @ CRLF) = Inr ''304''"
  by (simp add: get_status_code_def text_defs)

text \<open>
  C6. \<^verbatim>\<open>get_last_modified\<close> finds a \<^verbatim>\<open>Last-Modified\<close> header whatever its case and
  gives its stripped value. On a response without that header it does not give the
  current time: \<^verbatim>\<open>time.strftime\<close> is handed a \<^verbatim>\<open>bytes\<close> format and raises
  \<open>TypeError\<close>, whatever the clock shows.
\<close>

theorem get_last_modified_absent_raises:
  "get_last_modified clk (''HTTP/1.1 200 OK'' @ CRLF @ CRLF @ ''hello'') = Inl TypeError \<and>
   get_last_modified clk
     (''HTTP/1.1 200 OK'' @ CRLF @ ''LAST-modified:  Mon, 01 Jan 2024 00:00:00 GMT '' @ CRLF @
      CRLF @ ''hello'') = Inr (PyBytes ''Mon, 01 Jan 2024 00:00:00 GMT'')"
  by (simp add: get_last_modified_def text_defs)

text \<open>
  C7, as the code has it. \<^verbatim>\<open>get_host\<close> never fails. It takes the first line that
  starts with \<^verbatim>\<open>host:\<close> once lowered, wherever that line stands in the request,
  strips what follows the \<^verbatim>\<open>host:\<close>, and cuts the value at its first colon: a port
  is dropped, so that \<^verbatim>\<open>Host: example.com:8080\<close> gives \<^verbatim>\<open>example.com\<close>, and a
  value with more colons than one is cut at the first of them. Without such a line the
  result is \<^verbatim>\<open>localhost\<close>.
\<close>

theorem get_host_first_host_header:
  "get_host request =
     Inr (case find (\<lambda>l. lowered_startswith (str_lower l) ''host:'') (str_lines request) of
            None \<Rightarrow> ascii ''localhost''
          | Some line \<Rightarrow>
              (let v = str_strip (drop 5 line) in
               if 58 \<in> set v then str_strip (takeWhile (\<lambda>c. c \<noteq> 58) v) else v))
   \<and> get_host (ascii (''Host: example.com:8080'' @ [CHR 0x0D, CHR 0x0A, CHR 0x0D, CHR 0x0A]))
       = Inr (ascii ''example.com'')
   \<and> get_host (ascii (''GET / HTTP/1.1'' @ [CHR 0x0D, CHR 0x0A] @ ''Accept: */*'' @
         [CHR 0x0D, CHR 0x0A] @ ''hOsT:'' @ [CHR 0x09] @ ''a.example :80 '' @
         [CHR 0x0D, CHR 0x0A] @ ''Host: b.example'' @ [CHR 0x0D, CHR 0x0A, CHR 0x0D, CHR 0x0A]))
       = Inr (ascii ''a.example'')
   \<and> get_host (ascii (''GET / HTTP/1.1'' @ [CHR 0x0D, CHR 0x0A] @ ''Host: [::1]:8080'' @
         [CHR 0x0D, CHR 0x0A, CHR 0x0D, CHR 0x0A]))
       = Inr [91]
   \<and> get_host (ascii (''GET / HTTP/1.1'' @ [CHR 0x0D, CHR 0x0A] @ ''Hostess: x'' @
         [CHR 0x0D, CHR 0x0A, CHR 0x0D, CHR 0x0A]))
       = Inr [108, 111, 99, 97, 108, 104, 111, 115, 116]"
proof -
  have "get_host (ascii (''Host: example.com:8080'' @ [CHR 0x0D, CHR 0x0A, CHR 0x0D, CHR 0x0A]))
       = Inr (ascii ''example.com'')"
    by (simp add: get_host_def text_defs)
  moreover have "get_host (ascii (''GET / HTTP/1.1'' @ [CHR 0x0D, CHR 0x0A] @ ''Accept: */*'' @
         [CHR 0x0D, CHR 0x0A] @ ''hOsT:'' @ [CHR 0x09] @ ''a.example :80 '' @
         [CHR 0x0D, CHR 0x0A] @ ''Host: b.example'' @ [CHR 0x0D, CHR 0x0A, CHR 0x0D, CHR 0x0A]))
       = Inr (ascii ''a.example'')"
    by (simp add: get_host_def text_defs)
  moreover have "get_host (ascii (''GET / HTTP/1.1'' @ [CHR 0x0D, CHR 0x0A] @ ''Host: [::1]:8080'' @
         [CHR 0x0D, CHR 0x0A, CHR 0x0D, CHR 0x0A]))
       = Inr [91]"
    by (simp add: get_host_def text_defs)
  moreover have "get_host (ascii (''GET / HTTP/1.1'' @ [CHR 0x0D, CHR 0x0A] @ ''Hostess: x'' @
         [CHR 0x0D, CHR 0x0A, CHR 0x0D, CHR 0x0A]))
       = Inr [108, 111, 99, 97, 108, 104, 111, 115, 116]"
    by (simp add: get_host_def text_defs)
  ultimately show ?thesis
    by (simp only: get_host_def get_host_lines_find simp_thms)
qed

text \<open>
  C7, as stated, has the port taken off the end of the value. On the header
  \<^verbatim>\<open>Host: [::1]:8080\<close> the value without its port is \<^verbatim>\<open>[::1]\<close>, and
  \<^verbatim>\<open>get_host\<close> gives \<^verbatim>\<open>[\<close>.
\<close>

theorem get_host_cuts_at_first_colon:
  "get_host (ascii (''Host: [::1]:8080'' @ [CHR 0x0D, CHR 0x0A, CHR 0x0D, CHR 0x0A])) = Inr [91]
   \<and> strip_port_suffix (ascii ''[::1]:8080'') = [91, 58, 58, 49, 93]
   \<and> get_host (ascii (''Host: [::1]:8080'' @ [CHR 0x0D, CHR 0x0A, CHR 0x0D, CHR 0x0A]))
       \<noteq> Inr (strip_port_suffix (ascii ''[::1]:8080''))"
  by (simp add: get_host_def strip_port_suffix_def text_defs)

section \<open>HTTPS tunnel: properties\<close>

lemma sends_append: "sends s (a @ b) = sends s a @ sends s b"
  by (induction s a rule: sends.induct) simp_all

lemma recvs_append: "recvs s (a @ b) = recvs s a @ recvs s b"
  by (induction s a rule: recvs.induct) simp_all

lemma forwarded_append: "forwarded (a @ b) = forwarded a @ forwarded b"
  by (simp add: forwarded_def)

lemma relay_rlist_eq:
  "relay_rlist l =
     (list_ex (\<lambda>x. snd x = []) l,
      forwarded (takeWhile (\<lambda>x. snd x \<noteq> []) l) @
      (case dropWhile (\<lambda>x. snd x \<noteq> []) l of
         [] \<Rightarrow> [] | (s, d) # rest \<Rightarrow> [Recv s [], Close Client, Close Origin]))"
  by (induction l rule: relay_rlist.induct) (simp_all add: forwarded_def)

text \<open>
  The whole run of the relay: the reads up to the first empty one are forwarded, the
  empty one closes both sockets and ends the run; without an empty read the relay waits.
\<close>

lemma relay_https_eq:
  "relay_https rs =
     (if list_ex (\<lambda>x. snd x = []) (concat rs) then Returns () else Blocks,
      forwarded (takeWhile (\<lambda>x. snd x \<noteq> []) (concat rs)) @
      (case dropWhile (\<lambda>x. snd x \<noteq> []) (concat rs) of
         [] \<Rightarrow> [] | (s, d) # rest \<Rightarrow> [Recv s [], Close Client, Close Origin]))"
proof (induction rs)
  case Nil
  show ?case by (simp add: forwarded_def)
next
  case (Cons rlist later)
  let ?P = "\<lambda>x::sock \<times> string. snd x \<noteq> []"
  show ?case
  proof (cases "list_ex (\<lambda>x. snd x = []) rlist")
    case True
    then obtain x where x: "x \<in> set rlist" "\<not> ?P x" by (auto simp: list_ex_iff)
    have tw: "takeWhile ?P (rlist @ concat later) = takeWhile ?P rlist"
      using x by (rule takeWhile_append1)
    have dw: "dropWhile ?P (rlist @ concat later) = dropWhile ?P rlist @ concat later"
      using x by (rule dropWhile_append1)
    have "dropWhile ?P rlist \<noteq> []" using x by (auto simp: dropWhile_eq_Nil_conv)
    then obtain y ys where d: "dropWhile ?P rlist = y # ys"
      by (cases "dropWhile ?P rlist") auto
    have r: "relay_rlist rlist = (True, forwarded (takeWhile ?P rlist) @
        (case y of (s, d) \<Rightarrow> [Recv s [], Close Client, Close Origin]))"
      using True by (simp add: relay_rlist_eq d)
    have "list_ex (\<lambda>x. snd x = []) (concat (rlist # later))"
      using True by (auto simp: list_ex_iff)
    then show ?thesis by (simp add: r tw dw d)
  next
    case False
    then have al: "\<And>x. x \<in> set rlist \<Longrightarrow> ?P x" by (auto simp: list_ex_iff)
    have tw: "takeWhile ?P (rlist @ concat later) = rlist @ takeWhile ?P (concat later)"
      using al by (rule takeWhile_append2)
    have dw: "dropWhile ?P (rlist @ concat later) = dropWhile ?P (concat later)"
      using al by (rule dropWhile_append2)
    have t1: "takeWhile ?P rlist = rlist" using al by simp
    have d1: "dropWhile ?P rlist = []" using al by simp
    have r: "relay_rlist rlist = (False, forwarded rlist)"
      using False by (simp add: relay_rlist_eq t1 d1)
    have ex: "list_ex (\<lambda>x. snd x = []) (concat (rlist # later)) =
        list_ex (\<lambda>x. snd x = []) (concat later)"
      using False by (auto simp: list_ex_iff)
    show ?thesis unfolding relay_https.simps r ex
      by (simp add: Cons.IH tw dw forwarded_append)
  qed
qed

lemma not_Origin: "s \<noteq> Origin \<longleftrightarrow> s = Client"
  by (cases s) simp_all

lemma forwarded_sends:
  "\<forall>x\<in>set l. snd x \<noteq> [] \<Longrightarrow>
   sends Origin (forwarded l) = filter (\<lambda>d. d \<noteq> []) (recvs Client (forwarded l)) \<and>
   sends Client (forwarded l) = filter (\<lambda>d. d \<noteq> []) (recvs Origin (forwarded l))"
  by (induction l) (auto simp: forwarded_def not_Origin)

lemma closing_silent:
  "sends t (case xs of [] \<Rightarrow> [] | (s, d) # rest \<Rightarrow> [Recv s [], Close Client, Close Origin]) = [] \<and>
   filter (\<lambda>d. d \<noteq> [])
     (recvs t (case xs of [] \<Rightarrow> [] | (s, d) # rest \<Rightarrow> [Recv s [], Close Client, Close Origin])) = []"
  by (cases xs) (auto split: prod.splits)

lemma relay_sends:
  "sends Origin (snd (relay_https rs)) =
     filter (\<lambda>d. d \<noteq> []) (recvs Client (snd (relay_https rs))) \<and>
   sends Client (snd (relay_https rs)) =
     filter (\<lambda>d. d \<noteq> []) (recvs Origin (snd (relay_https rs)))"
proof -
  let ?P = "\<lambda>x::sock \<times> string. snd x \<noteq> []"
  let ?pre = "takeWhile ?P (concat rs)"
  have a: "\<forall>x\<in>set ?pre. snd x \<noteq> []" by (auto dest: set_takeWhileD)
  have e: "snd (relay_https rs) = forwarded ?pre @
      (case dropWhile ?P (concat rs) of
         [] \<Rightarrow> [] | (s, d) # rest \<Rightarrow> [Recv s [], Close Client, Close Origin])"
    by (simp add: relay_https_eq)
  show ?thesis unfolding e sends_append recvs_append filter_append
    using forwarded_sends [OF a] by (simp add: closing_silent)
qed

lemma relay_https_never_raises: "fst (relay_https rs) = Returns () \<or> fst (relay_https rs) = Blocks"
  by (simp add: relay_https_eq)


text \<open>
  C8. In the tunnel every read that is not empty is handed, as it is and in the order of
  the reads, to \<^verbatim>\<open>send\<close> on the other socket. The first empty read ends the relay:
  both sockets are closed, the function returns, and no later read takes place. With no
  empty read the relay never returns.
\<close>

theorem relay_https_forwards_until_empty_read:
  "relay_https rounds =
     (if list_ex (\<lambda>x. snd x = []) (concat rounds) then Returns () else Blocks,
      forwarded (takeWhile (\<lambda>x. snd x \<noteq> []) (concat rounds)) @
      (case dropWhile (\<lambda>x. snd x \<noteq> []) (concat rounds) of
         [] \<Rightarrow> [] | (s, d) # rest \<Rightarrow> [Recv s [], Close Client, Close Origin]))
   \<and> sends Origin (snd (relay_https rounds)) =
       filter (\<lambda>d. d \<noteq> []) (recvs Client (snd (relay_https rounds)))
   \<and> sends Client (snd (relay_https rounds)) =
       filter (\<lambda>d. d \<noteq> []) (recvs Origin (snd (relay_https rounds)))"
  using relay_https_eq [of rounds] relay_sends [of rounds] by blast

section \<open>Connection handler: properties\<close>

lemmas example_defs =
  example_world_def connect_request_def get_request_def cached_server_def not_modified_def
  fresh_response_def odd_request_def plain_response_def accented_request_def accented_get_def
  one_token_request_def lower_case_request_def probe_request_def

lemmas handler_defs =
  handle_request_def fetch_uncached_def fetch_stale_def forward_to_server_def handle_https_def
  conditional_request_def get_url_def get_host_def get_status_code_def get_last_modified_def
  HTTP_PORT_def HTTPS_PORT_def established_def blocked_response_def

lemma sublist_chain: "sublist a b \<Longrightarrow> sublist b c \<Longrightarrow> sublist a c"
proof -
  assume "sublist a b" "sublist b c"
  then obtain p q p' q' where "b = p @ a @ q" "c = p' @ b @ q'"
    by (auto simp: sublist_def)
  then have "c = (p' @ p) @ a @ (q @ q')" by simp
  then show ?thesis unfolding sublist_def by blast
qed

lemma request_method_sublist:
  assumes "request_method request = Inr m"
  shows "contains m request"
proof -
  let ?line = "hd (str_lines request)"
  from assms have "m \<in> set (str_split ?line)"
    by (auto simp: request_method_def py_index_def split: if_splits)
  then have "sublist m ?line"
    using split_ws_sublist [of m str_isspace "[]" ?line] by (simp add: str_split_def)
  moreover have "sublist ?line request"
    unfolding str_lines_def using hd_split_crlf_prefix by (rule prefix_imp_sublist)
  ultimately have "sublist m request" by (rule sublist_chain)
  then show ?thesis by (simp add: contains_iff_sublist)
qed

lemma contains_alt: "(\<exists>pre post. h = pre @ n @ post) = contains n h"
  by (simp add: contains_iff_sublist sublist_def)

lemma established_bytes:
  "established = ''HTTP/1.1 200 Connection Established'' @ [CHR 0x0D, CHR 0x0A, CHR 0x0D, CHR 0x0A]"
  by (simp add: established_def CRLF_def)

lemma blocked_response_bytes:
  "blocked_response =
     ''HTTP/1.1 403 Forbidden'' @ [CHR 0x0D, CHR 0x0A] @
     ''Content-Type: text/html'' @ [CHR 0x0D, CHR 0x0A, CHR 0x0D, CHR 0x0A] @
     ''<html><head><title>403 Forbidden</title></head><body><h1>403 Forbidden</h1><p>This page has been blocked by the proxy server.</p></body></html>''"
  by (simp add: blocked_response_def CRLF_def)

text \<open>
  C1. A request whose target is in the block list gets the fixed 403 response, byte for
  byte, whatever the cache holds: the handler returns, leaves the server state as it
  was, connects to no origin, and sends the blocked response and nothing after it. When
  the request holds \<^verbatim>\<open>CONNECT\<close>, which it does whenever its method is
  \<^verbatim>\<open>CONNECT\<close>, the line \<^verbatim>\<open>HTTP/1.1 200 Connection Established\<close> is sent first.
\<close>

theorem blocked_target_gets_forbidden:
  assumes "py_decode (PyBytes (first_read w)) = Inr request" and "request \<noteq> []"
    and "get_url request = Inr u" and "u \<in> blocked_urls s"
  shows "handle_request w (s\<lparr>cache := c\<rparr>) =
           (Returns (), s\<lparr>cache := c\<rparr>,
            [Recv Client (first_read w)] @
            (if \<exists>pre post. request = pre @ [67, 79, 78, 78, 69, 67, 84] @ post
             then [Send Client (''HTTP/1.1 200 Connection Established'' @
                                [CHR 0x0D, CHR 0x0A, CHR 0x0D, CHR 0x0A])]
             else []) @
            [Sendall Client
               (''HTTP/1.1 403 Forbidden'' @ [CHR 0x0D, CHR 0x0A] @
                ''Content-Type: text/html'' @ [CHR 0x0D, CHR 0x0A, CHR 0x0D, CHR 0x0A] @
                ''<html><head><title>403 Forbidden</title></head><body><h1>403 Forbidden</h1><p>This page has been blocked by the proxy server.</p></body></html>''),
             Close Client])
       \<and> (request_method request = Inr [67, 79, 78, 78, 69, 67, 84]
            \<longrightarrow> (\<exists>pre post. request = pre @ [67, 79, 78, 78, 69, 67, 84] @ post))"
proof -
  obtain h where h: "get_host request = Inr h" using get_host_total by blast
  have "handle_request w (s\<lparr>cache := c\<rparr>) =
           (Returns (), s\<lparr>cache := c\<rparr>,
            [Recv Client (first_read w)] @
            (if contains (ascii ''CONNECT'') request then [Send Client established] else []) @
            [Sendall Client blocked_response, Close Client])"
    using assms h by (simp add: handle_request_def)
  moreover have a: "ascii ''CONNECT'' = [67, 79, 78, 78, 69, 67, 84]"
    by (simp add: ascii_def)
  ultimately show ?thesis
    unfolding established_bytes blocked_response_bytes a contains_alt
    using request_method_sublist by blast
qed

text \<open>
  A \<^verbatim>\<open>CONNECT\<close> request whose blocked target has an accented letter, with that target
  also in the cache; and a \<^verbatim>\<open>GET\<close> for a blocked target, which gets the 403 alone.
\<close>

theorem blocked_target_gets_forbidden_witness:
  "py_decode (PyBytes (first_read (example_world accented_request []))) =
     Inr ([67, 79, 78, 78, 69, 67, 84, 32, 99, 97, 102, 233] @
          ascii (''.example:443 HTTP/1.1'' @ CRLF @ ''Host: caf'') @ [233] @
          ascii (''.example:443'' @ CRLF @ CRLF))
   \<and> get_url ([67, 79, 78, 78, 69, 67, 84, 32, 99, 97, 102, 233] @
          ascii (''.example:443 HTTP/1.1'' @ CRLF @ ''Host: caf'') @ [233] @
          ascii (''.example:443'' @ CRLF @ CRLF))
       = Inr ([99, 97, 102, 233] @ ascii ''.example:443'')
   \<and> [99, 97, 102, 233] @ ascii ''.example:443''
       \<in> blocked_urls \<lparr>cache = Map.empty, blocked_urls = {[99, 97, 102, 233] @ ascii ''.example:443''}\<rparr>
   \<and> request_method ([67, 79, 78, 78, 69, 67, 84, 32, 99, 97, 102, 233] @
          ascii (''.example:443 HTTP/1.1'' @ CRLF @ ''Host: caf'') @ [233] @
          ascii (''.example:443'' @ CRLF @ CRLF))
       = Inr [67, 79, 78, 78, 69, 67, 84]
   \<and> handle_request (example_world accented_request [])
        \<lparr>cache = [[99, 97, 102, 233] @ ascii ''.example:443'' \<mapsto>
           \<lparr>rawResponse = ''old'', lastModified = PyBytes ''Mon'', fetchLatency = 1\<rparr>],
         blocked_urls = {[99, 97, 102, 233] @ ascii ''.example:443''}\<rparr> =
       (Returns (),
        \<lparr>cache = [[99, 97, 102, 233] @ ascii ''.example:443'' \<mapsto>
           \<lparr>rawResponse = ''old'', lastModified = PyBytes ''Mon'', fetchLatency = 1\<rparr>],
         blocked_urls = {[99, 97, 102, 233] @ ascii ''.example:443''}\<rparr>,
        [Recv Client accented_request,
         Send Client (''HTTP/1.1 200 Connection Established'' @
                      [CHR 0x0D, CHR 0x0A, CHR 0x0D, CHR 0x0A]),
         Sendall Client
           (''HTTP/1.1 403 Forbidden'' @ [CHR 0x0D, CHR 0x0A] @
            ''Content-Type: text/html'' @ [CHR 0x0D, CHR 0x0A, CHR 0x0D, CHR 0x0A] @
            ''<html><head><title>403 Forbidden</title></head><body><h1>403 Forbidden</h1><p>This page has been blocked by the proxy server.</p></body></html>''),
         Close Client])
   \<and> handle_request (example_world accented_get [fresh_response, []])
        \<lparr>cache = Map.empty, blocked_urls = {ascii ''http://example.com/caf'' @ [233]}\<rparr> =
       (Returns (),
        \<lparr>cache = Map.empty, blocked_urls = {ascii ''http://example.com/caf'' @ [233]}\<rparr>,
        [Recv Client accented_get,
         Sendall Client
           (''HTTP/1.1 403 Forbidden'' @ [CHR 0x0D, CHR 0x0A] @
            ''Content-Type: text/html'' @ [CHR 0x0D, CHR 0x0A, CHR 0x0D, CHR 0x0A] @
            ''<html><head><title>403 Forbidden</title></head><body><h1>403 Forbidden</h1><p>This page has been blocked by the proxy server.</p></body></html>''),
         Close Client])"
proof -
  let ?req = "[67, 79, 78, 78, 69, 67, 84, 32, 99, 97, 102, 233] @
          ascii (''.example:443 HTTP/1.1'' @ CRLF @ ''Host: caf'') @ [233] @
          ascii (''.example:443'' @ CRLF @ CRLF)"
  let ?u = "[99, 97, 102, 233] @ ascii ''.example:443''"
  have h1: "py_decode (PyBytes (first_read (example_world accented_request []))) = Inr ?req"
    by (simp add: example_defs text_defs)
  have h2: "?req \<noteq> []" by simp
  have h3: "get_url ?req = Inr ?u"
    by (simp add: get_url_def text_defs)
  have h4: "?u \<in> blocked_urls \<lparr>cache = Map.empty, blocked_urls = {?u}\<rparr>"
    by simp
  have h5: "request_method ?req = Inr [67, 79, 78, 78, 69, 67, 84]"
    by (simp add: request_method_def text_defs)
  have c: "contains [67, 79, 78, 78, 69, 67, 84] ?req"
    by (simp add: text_defs)
  let ?get = "ascii (''GET http://example.com/caf'') @ [233] @
          ascii ('' HTTP/1.1'' @ CRLF @ ''Host: example.com'' @ CRLF @ CRLF)"
  let ?v = "ascii ''http://example.com/caf'' @ [233]"
  have g1: "py_decode (PyBytes (first_read (example_world accented_get [fresh_response, []]))) = Inr ?get"
    by (simp add: example_defs text_defs)
  have g2: "?get \<noteq> []" by (simp add: ascii_def)
  have g3: "get_url ?get = Inr ?v"
    by (simp add: get_url_def text_defs)
  have g4: "?v \<in> blocked_urls \<lparr>cache = Map.empty, blocked_urls = {?v}\<rparr>"
    by simp
  have n: "\<not> contains [67, 79, 78, 78, 69, 67, 84] ?get"
    by (simp add: text_defs)
  show ?thesis
    using blocked_target_gets_forbidden [OF h1 h2 h3 h4,
        of "[?u \<mapsto> \<lparr>rawResponse = ''old'', lastModified = PyBytes ''Mon'', fetchLatency = 1\<rparr>]",
        unfolded contains_alt]
      blocked_target_gets_forbidden [OF g1 g2 g3 g4, of Map.empty, unfolded contains_alt]
      h1 h3 h5 c n
    by (simp add: example_world_def)
qed

text \<open>
  C2. For a cached target that is not blocked, the probe's answer counts as not modified
  exactly when its status code is \<^verbatim>\<open>304\<close>: then the client is sent the stored
  response, byte for byte, and the server state is unchanged; with any other code the
  handler goes on to fetch the resource again.
\<close>

theorem revalidation_304_serves_cached:
  assumes "py_decode (PyBytes (first_read w)) = Inr request" and "request \<noteq> []"
    and "get_url request = Inr u" and "get_host request = Inr h"
    and "u \<notin> blocked_urls s" and "cache s u = Some entry"
    and "py_decode (lastModified entry) = Inr since"
    and "forward_to_server w (conditional_request u h since) True = (Returns probe, ev)"
    and "get_status_code probe = Inr code"
  shows "handle_request w s =
           (if code = ''304''
            then (Returns (), s,
                  [Recv Client (first_read w)] @ ev @
                  [Sendall Client (rawResponse entry), Close Client])
            else fetch_stale w s request u ([Recv Client (first_read w)] @ ev))"
  using assms by (simp add: handle_request_def)

text \<open>
  The request of an example client for a cached target, the probe sent to the origin
  byte for byte, its 304 answer, and the stored response sent to the client.
\<close>

theorem revalidation_304_serves_cached_witness:
  "py_decode (PyBytes (first_read (example_world get_request [not_modified]))) =
     Inr (ascii get_request)
   \<and> ascii get_request \<noteq> []
   \<and> get_url (ascii get_request) = Inr (ascii ''http://example.com/'')
   \<and> get_host (ascii get_request) = Inr (ascii ''example.com'')
   \<and> ascii ''http://example.com/'' \<notin> blocked_urls cached_server
   \<and> cache cached_server (ascii ''http://example.com/'') =
       Some \<lparr>rawResponse = ''HTTP/1.1 200 OK'' @ CRLF @ CRLF @ ''OLD'',
         lastModified = PyBytes ''Mon, 01 Jan 2024 00:00:00 GMT'', fetchLatency = 1\<rparr>
   \<and> py_decode (PyBytes ''Mon, 01 Jan 2024 00:00:00 GMT'') =
       Inr (ascii ''Mon, 01 Jan 2024 00:00:00 GMT'')
   \<and> forward_to_server (example_world get_request [not_modified])
         (conditional_request (ascii ''http://example.com/'') (ascii ''example.com'')
            (ascii ''Mon, 01 Jan 2024 00:00:00 GMT'')) True =
       (Returns (''HTTP/1.1 304 Not Modified'' @ [CHR 0x0D, CHR 0x0A, CHR 0x0D, CHR 0x0A]),
        [Connect [101, 120, 97, 109, 112, 108, 101, 46, 99, 111, 109] 80,
         Sendall Origin probe_request,
         Recv Origin (''HTTP/1.1 304 Not Modified'' @ [CHR 0x0D, CHR 0x0A, CHR 0x0D, CHR 0x0A]),
         Close Origin])
   \<and> get_status_code (''HTTP/1.1 304 Not Modified'' @ [CHR 0x0D, CHR 0x0A, CHR 0x0D, CHR 0x0A])
       = Inr ''304''
   \<and> handle_request (example_world get_request [not_modified]) cached_server =
       (Returns (), cached_server,
        [Recv Client get_request,
         Connect [101, 120, 97, 109, 112, 108, 101, 46, 99, 111, 109] 80,
         Sendall Origin probe_request,
         Recv Origin (''HTTP/1.1 304 Not Modified'' @ [CHR 0x0D, CHR 0x0A, CHR 0x0D, CHR 0x0A]),
         Close Origin,
         Sendall Client (''HTTP/1.1 200 OK'' @ [CHR 0x0D, CHR 0x0A, CHR 0x0D, CHR 0x0A] @ ''OLD''),
         Close Client])
   \<and> get_status_code fresh_response = Inr ''200''
   \<and> Sendall Client (''HTTP/1.1 200 OK'' @ [CHR 0x0D, CHR 0x0A, CHR 0x0D, CHR 0x0A] @ ''OLD'')
       \<notin> set (snd (snd (handle_request (example_world get_request [fresh_response, []])
                              cached_server)))"
proof -
  let ?w = "example_world get_request [not_modified]"
  let ?e = "\<lparr>rawResponse = ''HTTP/1.1 200 OK'' @ CRLF @ CRLF @ ''OLD'',
         lastModified = PyBytes ''Mon, 01 Jan 2024 00:00:00 GMT'', fetchLatency = 1\<rparr>"
  let ?p = "''HTTP/1.1 304 Not Modified'' @ [CHR 0x0D, CHR 0x0A, CHR 0x0D, CHR 0x0A]"
  have h1: "py_decode (PyBytes (first_read ?w)) = Inr (ascii get_request)"
    by (simp add: example_defs text_defs)
  have h2: "ascii get_request \<noteq> []" by (simp add: get_request_def ascii_def)
  have h3: "get_url (ascii get_request) = Inr (ascii ''http://example.com/'')"
    by (simp add: get_request_def get_url_def text_defs)
  have h4: "get_host (ascii get_request) = Inr (ascii ''example.com'')"
    by (simp add: get_request_def get_host_def text_defs)
  have h5: "ascii ''http://example.com/'' \<notin> blocked_urls cached_server"
    by (simp add: cached_server_def)
  have h6: "cache cached_server (ascii ''http://example.com/'') = Some ?e"
    by (simp add: cached_server_def)
  have h7: "py_decode (lastModified ?e) = Inr (ascii ''Mon, 01 Jan 2024 00:00:00 GMT'')"
    by (simp add: text_defs)
  have h8: "forward_to_server ?w
         (conditional_request (ascii ''http://example.com/'') (ascii ''example.com'')
            (ascii ''Mon, 01 Jan 2024 00:00:00 GMT'')) True =
       (Returns ?p,
        [Connect [101, 120, 97, 109, 112, 108, 101, 46, 99, 111, 109] 80,
         Sendall Origin probe_request, Recv Origin ?p, Close Origin])"
    by (simp add: forward_to_server_def conditional_request_def get_host_def example_defs
          HTTP_PORT_def text_defs)
  have h9: "get_status_code ?p = Inr ''304''"
    by (simp add: get_status_code_def text_defs)
  have f1: "get_status_code fresh_response = Inr ''200''"
    by (simp add: get_status_code_def fresh_response_def text_defs)
  have f2: "Sendall Client (''HTTP/1.1 200 OK'' @ [CHR 0x0D, CHR 0x0A, CHR 0x0D, CHR 0x0A] @ ''OLD'')
       \<notin> set (snd (snd (handle_request (example_world get_request [fresh_response, []])
                              cached_server)))"
    by (simp add: handler_defs example_defs text_defs)
  have "py_decode (PyBytes (first_read (example_world get_request [not_modified]))) =
     Inr (ascii get_request)
   \<and> ascii get_request \<noteq> []
   \<and> get_url (ascii get_request) = Inr (ascii ''http://example.com/'')
   \<and> get_host (ascii get_request) = Inr (ascii ''example.com'')
   \<and> ascii ''http://example.com/'' \<notin> blocked_urls cached_server
   \<and> cache cached_server (ascii ''http://example.com/'') =
       Some \<lparr>rawResponse = ''HTTP/1.1 200 OK'' @ CRLF @ CRLF @ ''OLD'',
         lastModified = PyBytes ''Mon, 01 Jan 2024 00:00:00 GMT'', fetchLatency = 1\<rparr>
   \<and> py_decode (PyBytes ''Mon, 01 Jan 2024 00:00:00 GMT'') =
       Inr (ascii ''Mon, 01 Jan 2024 00:00:00 GMT'')
   \<and> forward_to_server (example_world get_request [not_modified])
         (conditional_request (ascii ''http://example.com/'') (ascii ''example.com'')
            (ascii ''Mon, 01 Jan 2024 00:00:00 GMT'')) True =
       (Returns (''HTTP/1.1 304 Not Modified'' @ [CHR 0x0D, CHR 0x0A, CHR 0x0D, CHR 0x0A]),
        [Connect [101, 120, 97, 109, 112, 108, 101, 46, 99, 111, 109] 80,
         Sendall Origin probe_request,
         Recv Origin (''HTTP/1.1 304 Not Modified'' @ [CHR 0x0D, CHR 0x0A, CHR 0x0D, CHR 0x0A]),
         Close Origin])
   \<and> get_status_code (''HTTP/1.1 304 Not Modified'' @ [CHR 0x0D, CHR 0x0A, CHR 0x0D, CHR 0x0A])
       = Inr ''304''
   \<and> handle_request (example_world get_request [not_modified]) cached_server =
       (Returns (), cached_server,
        [Recv Client get_request,
         Connect [101, 120, 97, 109, 112, 108, 101, 46, 99, 111, 109] 80,
         Sendall Origin probe_request,
         Recv Origin (''HTTP/1.1 304 Not Modified'' @ [CHR 0x0D, CHR 0x0A, CHR 0x0D, CHR 0x0A]),
         Close Origin,
         Sendall Client (''HTTP/1.1 200 OK'' @ [CHR 0x0D, CHR 0x0A, CHR 0x0D, CHR 0x0A] @ ''OLD''),
         Close Client])"
    using revalidation_304_serves_cached [OF h1 h2 h3 h4 h5 h6 h7 h8 h9] h1 h2 h3 h4 h5 h6 h8 h9
    by (simp add: example_world_def CRLF_def ascii_def continuation_def)
  with f1 f2 show ?thesis by blast
qed

text \<open>
  C9. A request that holds \<^verbatim>\<open>CONNECT\<close> and whose target is neither blocked nor cached
  opens the tunnel to port 443 and runs the relay; the server state, and so the cache, is
  the same afterwards, also when the connection to the origin fails.
\<close>

theorem connect_leaves_cache:
  assumes "py_decode (PyBytes (first_read w)) = Inr request" and "request \<noteq> []"
    and "get_url request = Inr u" and "get_host request = Inr h"
    and "u \<notin> blocked_urls s" and "cache s u = None"
    and "\<exists>pre post. request = pre @ [67, 79, 78, 78, 69, 67, 84] @ post"
  shows "handle_request w s =
           (if accepts w h 443 then
              (fst (relay_https (rlists w)), s,
               [Recv Client (first_read w), Connect h 443,
                Send Client (''HTTP/1.1 200 Connection Established'' @
                             [CHR 0x0D, CHR 0x0A, CHR 0x0D, CHR 0x0A])] @
               snd (relay_https (rlists w)) @
               (if fst (relay_https (rlists w)) = Returns () then [Close Client] else []))
            else (Raises OSError, s, [Recv Client (first_read w), Connect h 443]))
         \<and> cache (fst (snd (handle_request w s))) = cache s"
proof -
  obtain r ev where r: "relay_https (rlists w) = (r, ev)" by (cases "relay_https (rlists w)")
  have "contains [67, 79, 78, 78, 69, 67, 84] request"
    using assms(7) unfolding contains_alt .
  then have c: "contains (ascii ''CONNECT'') request"
    by (simp add: ascii_def)
  from r relay_https_never_raises [of "rlists w"] have "r = Returns () \<or> r = Blocks" by simp
  then have "handle_request w s =
           (if accepts w h 443 then
              (fst (relay_https (rlists w)), s,
               [Recv Client (first_read w), Connect h 443, Send Client established] @
               snd (relay_https (rlists w)) @
               (if fst (relay_https (rlists w)) = Returns () then [Close Client] else []))
            else (Raises OSError, s, [Recv Client (first_read w), Connect h 443]))"
    using assms(1-6) c r by (auto simp: handle_request_def handle_https_def HTTPS_PORT_def)
  then show ?thesis unfolding established_bytes by simp
qed

text \<open>A \<^verbatim>\<open>CONNECT\<close> request for a target that the example cache does not hold.\<close>

theorem connect_leaves_cache_witness:
  "py_decode (PyBytes (first_read (example_world connect_request []))) =
     Inr (ascii connect_request)
   \<and> ascii connect_request \<noteq> []
   \<and> get_url (ascii connect_request) = Inr (ascii ''example.com:443'')
   \<and> get_host (ascii connect_request) = Inr (ascii ''example.com'')
   \<and> ascii ''example.com:443'' \<notin> blocked_urls cached_server
   \<and> cache cached_server (ascii ''example.com:443'') = None
   \<and> ascii connect_request =
       [] @ [67, 79, 78, 78, 69, 67, 84] @
       ascii ('' example.com:443 HTTP/1.1'' @ CRLF @ ''Host: example.com:443'' @ CRLF @ CRLF)
   \<and> handle_request (example_world connect_request []) cached_server =
       (Returns (), cached_server,
        [Recv Client connect_request,
         Connect [101, 120, 97, 109, 112, 108, 101, 46, 99, 111, 109] 443,
         Send Client (''HTTP/1.1 200 Connection Established'' @
                      [CHR 0x0D, CHR 0x0A, CHR 0x0D, CHR 0x0A]),
         Recv Client ''hello'', Send Origin ''hello'', Recv Origin ''world'', Send Client ''world'',
         Recv Client [], Close Client, Close Origin, Close Client])"
proof -
  let ?w = "example_world connect_request []"
  have h1: "py_decode (PyBytes (first_read ?w)) = Inr (ascii connect_request)"
    by (simp add: example_defs text_defs)
  have h2: "ascii connect_request \<noteq> []" by (simp add: connect_request_def ascii_def)
  have h3: "get_url (ascii connect_request) = Inr (ascii ''example.com:443'')"
    by (simp add: connect_request_def get_url_def text_defs)
  have h4: "get_host (ascii connect_request) = Inr (ascii ''example.com'')"
    by (simp add: connect_request_def get_host_def text_defs)
  have h5: "ascii ''example.com:443'' \<notin> blocked_urls cached_server"
    by (simp add: cached_server_def)
  have h6: "cache cached_server (ascii ''example.com:443'') = None"
    by (simp add: cached_server_def ascii_def)
  have e: "ascii connect_request =
       [] @ [67, 79, 78, 78, 69, 67, 84] @
       ascii ('' example.com:443 HTTP/1.1'' @ CRLF @ ''Host: example.com:443'' @ CRLF @ CRLF)"
    by (simp add: connect_request_def ascii_def)
  then have h7: "\<exists>pre post. ascii connect_request = pre @ [67, 79, 78, 78, 69, 67, 84] @ post"
    by blast
  show ?thesis
    using connect_leaves_cache [OF h1 h2 h3 h4 h5 h6 h7] h1 h2 h3 h4 h5 h6 e
    by (simp add: example_world_def ascii_def)
qed

text \<open>
  Whatever the origin does, a fetch starts by connecting to port 80 of the request's
  host, and the tunnel by connecting to its port 443.
\<close>

lemma forward_to_server_first:
  "get_host request = Inr h \<Longrightarrow>
   \<exists>r rest. forward_to_server w request b = (r, Connect h 80 # rest)"
  by (cases "recv_all (reads w h 80 (projr (py_encode (PyStr request)))) []")
     (auto simp: forward_to_server_def HTTP_PORT_def Let_def
           split: sum.splits list.splits result.splits)

lemma handle_https_first:
  "get_host request = Inr h \<Longrightarrow>
   \<exists>r rest. handle_https w request = (r, Connect h 443 # rest)"
  by (auto simp: handle_https_def HTTPS_PORT_def split: prod.splits)

lemma fetch_uncached_first:
  assumes "get_host request = Inr h"
  shows "\<exists>r s' rest. fetch_uncached w s request u ev = (r, s', ev @ Connect h 80 # rest)"
proof -
  from forward_to_server_first [OF assms] obtain r rest where
    f: "forward_to_server w request False = (r, Connect h 80 # rest)" by blast
  show ?thesis
    by (cases r; cases "get_last_modified (clock w) (case r of Returns x \<Rightarrow> x)")
       (simp_all add: fetch_uncached_def f Let_def)
qed

text \<open>
  C10. Whether a request is a \<^verbatim>\<open>CONNECT\<close> is decided by looking for the text
  \<^verbatim>\<open>CONNECT\<close> anywhere in the request, not by its method. For a blocked target the
  line \<^verbatim>\<open>HTTP/1.1 200 Connection Established\<close> precedes the 403 response exactly when
  the text occurs; for a target that is neither blocked nor cached the handler connects
  to port 443 when the text occurs and to port 80 when it does not. So a \<^verbatim>\<open>GET\<close>
  whose URL holds \<^verbatim>\<open>CONNECT\<close> is sent the 200 line before the 403 response when its
  target is blocked, and is given a tunnel, not an HTTP fetch, when its target is neither
  blocked nor cached.
\<close>

theorem connect_is_a_substring_test:
  assumes "py_decode (PyBytes (first_read w)) = Inr request" and "request \<noteq> []"
    and "get_url request = Inr u" and "get_host request = Inr h"
    and "u \<in> blocked_urls s1"
    and "u \<notin> blocked_urls s2" and "cache s2 u = None"
  shows "handle_request w s1 =
           (Returns (), s1,
            [Recv Client (first_read w)] @
            (if \<exists>pre post. request = pre @ [67, 79, 78, 78, 69, 67, 84] @ post
             then [Send Client (''HTTP/1.1 200 Connection Established'' @
                                [CHR 0x0D, CHR 0x0A, CHR 0x0D, CHR 0x0A])]
             else []) @
            [Sendall Client
               (''HTTP/1.1 403 Forbidden'' @ [CHR 0x0D, CHR 0x0A] @
                ''Content-Type: text/html'' @ [CHR 0x0D, CHR 0x0A, CHR 0x0D, CHR 0x0A] @
                ''<html><head><title>403 Forbidden</title></head><body><h1>403 Forbidden</h1><p>This page has been blocked by the proxy server.</p></body></html>''),
             Close Client])
       \<and> take 2 (snd (snd (handle_request w s2))) =
           [Recv Client (first_read w),
            Connect h (if \<exists>pre post. request = pre @ [67, 79, 78, 78, 69, 67, 84] @ post
                       then 443 else 80)]
       \<and> request_method (ascii odd_request) = Inr [71, 69, 84]
       \<and> handle_request (example_world odd_request [fresh_response, []])
            \<lparr>cache = Map.empty, blocked_urls = {ascii ''http://example.com/CONNECT''}\<rparr> =
           (Returns (),
            \<lparr>cache = Map.empty, blocked_urls = {ascii ''http://example.com/CONNECT''}\<rparr>,
            [Recv Client odd_request,
             Send Client (''HTTP/1.1 200 Connection Established'' @
                          [CHR 0x0D, CHR 0x0A, CHR 0x0D, CHR 0x0A]),
             Sendall Client
               (''HTTP/1.1 403 Forbidden'' @ [CHR 0x0D, CHR 0x0A] @
                ''Content-Type: text/html'' @ [CHR 0x0D, CHR 0x0A, CHR 0x0D, CHR 0x0A] @
                ''<html><head><title>403 Forbidden</title></head><body><h1>403 Forbidden</h1><p>This page has been blocked by the proxy server.</p></body></html>''),
             Close Client])
       \<and> handle_request (example_world odd_request [fresh_response, []])
            \<lparr>cache = Map.empty, blocked_urls = {}\<rparr> =
           (Returns (), \<lparr>cache = Map.empty, blocked_urls = {}\<rparr>,
            [Recv Client odd_request,
             Connect [101, 120, 97, 109, 112, 108, 101, 46, 99, 111, 109] 443,
             Send Client (''HTTP/1.1 200 Connection Established'' @
                          [CHR 0x0D, CHR 0x0A, CHR 0x0D, CHR 0x0A]),
             Recv Client ''hello'', Send Origin ''hello'',
             Recv Origin ''world'', Send Client ''world'',
             Recv Client [], Close Client, Close Origin, Close Client])"
proof -
  let ?c = "\<exists>pre post. request = pre @ [67, 79, 78, 78, 69, 67, 84] @ post"
  have c: "contains (ascii ''CONNECT'') request = ?c"
    by (simp add: contains_alt [symmetric] ascii_def)
  have "handle_request w s1 =
           (Returns (), s1,
            [Recv Client (first_read w)] @
            (if ?c then [Send Client established] else []) @
            [Sendall Client blocked_response, Close Client])"
    using assms(1-5) by (simp add: handle_request_def c)
  then have 1: "handle_request w s1 =
           (Returns (), s1,
            [Recv Client (first_read w)] @
            (if ?c
             then [Send Client (''HTTP/1.1 200 Connection Established'' @
                                [CHR 0x0D, CHR 0x0A, CHR 0x0D, CHR 0x0A])]
             else []) @
            [Sendall Client
               (''HTTP/1.1 403 Forbidden'' @ [CHR 0x0D, CHR 0x0A] @
                ''Content-Type: text/html'' @ [CHR 0x0D, CHR 0x0A, CHR 0x0D, CHR 0x0A] @
                ''<html><head><title>403 Forbidden</title></head><body><h1>403 Forbidden</h1><p>This page has been blocked by the proxy server.</p></body></html>''),
             Close Client])"
    unfolding established_bytes blocked_response_bytes .
  have 2: "take 2 (snd (snd (handle_request w s2))) =
           [Recv Client (first_read w), Connect h (if ?c then 443 else 80)]"
  proof (cases ?c)
    case True
    from handle_https_first [OF assms(4)] obtain r rest where
      "handle_https w request = (r, Connect h 443 # rest)" by blast
    then show ?thesis
      using True assms(1-4,6,7) by (cases r) (simp_all add: handle_request_def c)
  next
    case False
    from fetch_uncached_first [OF assms(4)] obtain r s' rest where
      "fetch_uncached w s2 request u [Recv Client (first_read w)] =
         (r, s', [Recv Client (first_read w)] @ Connect h 80 # rest)" by blast
    then show ?thesis
      using False assms(1-4,6,7) by (simp add: handle_request_def c)
  qed
  have 3: "request_method (ascii odd_request) = Inr [71, 69, 84]"
    by (simp add: odd_request_def request_method_def text_defs)
  have 4: "handle_request (example_world odd_request [fresh_response, []])
            \<lparr>cache = Map.empty, blocked_urls = {ascii ''http://example.com/CONNECT''}\<rparr> =
           (Returns (),
            \<lparr>cache = Map.empty, blocked_urls = {ascii ''http://example.com/CONNECT''}\<rparr>,
            [Recv Client odd_request,
             Send Client (''HTTP/1.1 200 Connection Established'' @
                          [CHR 0x0D, CHR 0x0A, CHR 0x0D, CHR 0x0A]),
             Sendall Client
               (''HTTP/1.1 403 Forbidden'' @ [CHR 0x0D, CHR 0x0A] @
                ''Content-Type: text/html'' @ [CHR 0x0D, CHR 0x0A, CHR 0x0D, CHR 0x0A] @
                ''<html><head><title>403 Forbidden</title></head><body><h1>403 Forbidden</h1><p>This page has been blocked by the proxy server.</p></body></html>''),
             Close Client])"
    by (simp add: handler_defs example_world_def odd_request_def text_defs)
  have 5: "handle_request (example_world odd_request [fresh_response, []])
            \<lparr>cache = Map.empty, blocked_urls = {}\<rparr> =
           (Returns (), \<lparr>cache = Map.empty, blocked_urls = {}\<rparr>,
            [Recv Client odd_request,
             Connect [101, 120, 97, 109, 112, 108, 101, 46, 99, 111, 109] 443,
             Send Client (''HTTP/1.1 200 Connection Established'' @
                          [CHR 0x0D, CHR 0x0A, CHR 0x0D, CHR 0x0A]),
             Recv Client ''hello'', Send Origin ''hello'',
             Recv Origin ''world'', Send Client ''world'',
             Recv Client [], Close Client, Close Origin, Close Client])"
    by (simp add: handler_defs example_world_def odd_request_def text_defs)
  from 1 2 3 4 5 show ?thesis by blast
qed

text \<open>
  A request whose method is \<^verbatim>\<open>connect\<close> in small letters does not hold the text: with
  its target blocked it gets the 403 alone, and with its target neither blocked nor
  cached it is fetched from port 80.
\<close>

theorem connect_is_a_substring_test_witness:
  "py_decode (PyBytes (first_read (example_world lower_case_request [fresh_response, []]))) =
     Inr (ascii lower_case_request)
   \<and> ascii lower_case_request \<noteq> []
   \<and> get_url (ascii lower_case_request) = Inr (ascii ''example.com:443'')
   \<and> get_host (ascii lower_case_request) = Inr (ascii ''example.com'')
   \<and> ascii ''example.com:443''
       \<in> blocked_urls \<lparr>cache = Map.empty, blocked_urls = {ascii ''example.com:443''}\<rparr>
   \<and> ascii ''example.com:443'' \<notin> blocked_urls \<lparr>cache = Map.empty, blocked_urls = {}\<rparr>
   \<and> cache \<lparr>cache = Map.empty, blocked_urls = {}\<rparr> (ascii ''example.com:443'') = None
   \<and> request_method (ascii lower_case_request) = Inr [99, 111, 110, 110, 101, 99, 116]
   \<and> handle_request (example_world lower_case_request [fresh_response, []])
        \<lparr>cache = Map.empty, blocked_urls = {ascii ''example.com:443''}\<rparr> =
       (Returns (), \<lparr>cache = Map.empty, blocked_urls = {ascii ''example.com:443''}\<rparr>,
        [Recv Client lower_case_request,
         Sendall Client
           (''HTTP/1.1 403 Forbidden'' @ [CHR 0x0D, CHR 0x0A] @
            ''Content-Type: text/html'' @ [CHR 0x0D, CHR 0x0A, CHR 0x0D, CHR 0x0A] @
            ''<html><head><title>403 Forbidden</title></head><body><h1>403 Forbidden</h1><p>This page has been blocked by the proxy server.</p></body></html>''),
         Close Client])
   \<and> take 2 (snd (snd (handle_request (example_world lower_case_request [fresh_response, []])
                          \<lparr>cache = Map.empty, blocked_urls = {}\<rparr>))) =
       [Recv Client lower_case_request,
        Connect [101, 120, 97, 109, 112, 108, 101, 46, 99, 111, 109] 80]"
proof -
  let ?w = "example_world lower_case_request [fresh_response, []]"
  have h1: "py_decode (PyBytes (first_read ?w)) = Inr (ascii lower_case_request)"
    by (simp add: example_defs text_defs)
  have h2: "ascii lower_case_request \<noteq> []" by (simp add: lower_case_request_def ascii_def)
  have h3: "get_url (ascii lower_case_request) = Inr (ascii ''example.com:443'')"
    by (simp add: lower_case_request_def get_url_def text_defs)
  have h4: "get_host (ascii lower_case_request) = Inr (ascii ''example.com'')"
    by (simp add: lower_case_request_def get_host_def text_defs)
  have h5: "ascii ''example.com:443''
       \<in> blocked_urls \<lparr>cache = Map.empty, blocked_urls = {ascii ''example.com:443''}\<rparr>"
    by simp
  have h6: "ascii ''example.com:443'' \<notin> blocked_urls \<lparr>cache = Map.empty, blocked_urls = {}\<rparr>"
    by simp
  have h7: "cache \<lparr>cache = Map.empty, blocked_urls = {}\<rparr> (ascii ''example.com:443'') = None"
    by simp
  have m: "request_method (ascii lower_case_request) = Inr [99, 111, 110, 110, 101, 99, 116]"
    by (simp add: lower_case_request_def request_method_def text_defs)
  have n: "\<not> contains [67, 79, 78, 78, 69, 67, 84] (ascii lower_case_request)"
    by (simp add: lower_case_request_def text_defs)
  show ?thesis
    using connect_is_a_substring_test [OF h1 h2 h3 h4 h5 h6 h7, unfolded contains_alt]
      h1 h2 h3 h4 m n
    by (simp add: example_world_def ascii_def)
qed

text \<open>
  Whatever the origin does, the re-fetch branch never returns normally and never changes
  the server state.
\<close>

lemma fetch_stale_never_stores:
  "fst (fetch_stale w s request u ev) \<noteq> Returns () \<and>
   fst (snd (fetch_stale w s request u ev)) = s"
  by (cases "forward_to_server w request False")
     (auto simp: fetch_stale_def split: result.splits)

text \<open>
  C3. The re-fetch after a probe that is not answered with 304 breaks off: the fetched
  response is \<^verbatim>\<open>bytes\<close>, \<^verbatim>\<open>response.encode()\<close> raises \<open>AttributeError\<close>, nothing is
  sent to the client and the cache keeps the old entry. The fetch of a target that is
  not cached sends the response first; it then stores the new entry when the response
  has a \<^verbatim>\<open>Last-Modified\<close> header, and raises \<open>TypeError\<close>, storing nothing, when it
  has none.
\<close>

theorem stale_fetch_raises:
  "handle_request (example_world get_request [fresh_response, []]) cached_server =
     (Raises AttributeError, cached_server,
      [Recv Client get_request,
       Connect (ascii ''example.com'') 80,
       Sendall Origin probe_request,
       Recv Origin fresh_response, Close Origin,
       Connect (ascii ''example.com'') 80, Sendall Origin get_request,
       Recv Origin fresh_response, Recv Origin [], Close Origin])
   \<and> get_status_code fresh_response = Inr ''200''
   \<and> handle_request (example_world get_request [plain_response, []])
        \<lparr>cache = Map.empty, blocked_urls = {}\<rparr> =
     (Raises TypeError, \<lparr>cache = Map.empty, blocked_urls = {}\<rparr>,
      [Recv Client get_request, Connect (ascii ''example.com'') 80, Sendall Origin get_request,
       Recv Origin plain_response, Recv Origin [], Close Origin,
       Sendall Client plain_response])
   \<and> handle_request (example_world get_request [fresh_response, []])
        \<lparr>cache = Map.empty, blocked_urls = {}\<rparr> =
     (Returns (),
      \<lparr>cache = [ascii ''http://example.com/'' \<mapsto>
         \<lparr>rawResponse = fresh_response,
          lastModified = PyBytes ''Tue, 02 Jan 2024 00:00:00 GMT'',
          fetchLatency = 1\<rparr>],
       blocked_urls = {}\<rparr>,
      [Recv Client get_request, Connect (ascii ''example.com'') 80, Sendall Origin get_request,
       Recv Origin fresh_response, Recv Origin [], Close Origin,
       Sendall Client fresh_response, Close Client])"
proof -
  have "handle_request (example_world get_request [fresh_response, []]) cached_server =
     (Raises AttributeError, cached_server,
      [Recv Client get_request,
       Connect (ascii ''example.com'') 80,
       Sendall Origin probe_request,
       Recv Origin fresh_response, Close Origin,
       Connect (ascii ''example.com'') 80, Sendall Origin get_request,
       Recv Origin fresh_response, Recv Origin [], Close Origin])"
    by (simp add: handler_defs example_defs text_defs)
  moreover have "get_status_code fresh_response = Inr ''200''"
    by (simp add: get_status_code_def fresh_response_def text_defs)
  moreover have "handle_request (example_world get_request [plain_response, []])
        \<lparr>cache = Map.empty, blocked_urls = {}\<rparr> =
     (Raises TypeError, \<lparr>cache = Map.empty, blocked_urls = {}\<rparr>,
      [Recv Client get_request, Connect (ascii ''example.com'') 80, Sendall Origin get_request,
       Recv Origin plain_response, Recv Origin [], Close Origin,
       Sendall Client plain_response])"
    by (simp add: handler_defs example_defs text_defs)
  moreover have "handle_request (example_world get_request [fresh_response, []])
        \<lparr>cache = Map.empty, blocked_urls = {}\<rparr> =
     (Returns (),
      \<lparr>cache = [ascii ''http://example.com/'' \<mapsto>
         \<lparr>rawResponse = fresh_response,
          lastModified = PyBytes ''Tue, 02 Jan 2024 00:00:00 GMT'',
          fetchLatency = 1\<rparr>],
       blocked_urls = {}\<rparr>,
      [Recv Client get_request, Connect (ascii ''example.com'') 80, Sendall Origin get_request,
       Recv Origin fresh_response, Recv Origin [], Close Origin,
       Sendall Client fresh_response, Close Client])"
    by (simp add: handler_defs example_defs text_defs)
  ultimately show ?thesis by blast
qed

section \<open>Malformed requests and the listener\<close>

text \<open>
  A connection whose handler leaves every server state as it finds it can be put
  anywhere among the accepted connections: the listener, the final state and the events
  of every other connection stay what they are without it.
\<close>

lemma start_insert:
  assumes "\<And>s. handle_request w s = (r, s, ev)"
  shows "start (before @ w # after) s =
           (case start (before @ after) s of
              (r', s', evs) \<Rightarrow>
                (r', s', take (length before) evs @ [ev] @ drop (length before) evs))"
proof (induction before arbitrary: s)
  case Nil
  show ?case by (simp add: assms split: prod.splits)
next
  case (Cons b bs)
  show ?case by (simp add: Cons.IH split: prod.splits)
qed

text \<open>
  C4, as the code has it. A request whose first line has fewer than two tokens makes
  \<^verbatim>\<open>get_url\<close> raise \<open>IndexError\<close>. The handler sends nothing and leaves the server
  state as it was. It closes the client socket only when the request is empty; otherwise
  it ends with the exception and never calls \<^verbatim>\<open>close\<close>. The accept loop does not see
  the exception: the listener and every other connection, accepted before or after, go
  on as they would without the malformed one.
\<close>

theorem malformed_request_raises:
  assumes "py_decode (PyBytes (first_read w)) = Inr request"
    and "length (str_split (hd (str_lines request))) < 2"
  shows "get_url request = Inl IndexError
       \<and> handle_request w s =
           (if request = [] then (Returns (), s, [Recv Client (first_read w), Close Client])
            else (Raises IndexError, s, [Recv Client (first_read w)]))
       \<and> start (before @ w # after) s =
           (case start (before @ after) s of
              (r, s', evs) \<Rightarrow>
                (r, s',
                 take (length before) evs @
                 [if request = [] then [Recv Client (first_read w), Close Client]
                  else [Recv Client (first_read w)]] @
                 drop (length before) evs))"
proof -
  have u: "get_url request = Inl IndexError"
    using assms(2)
    by (simp add: get_url_def str_lines_def split_crlf_nonempty py_index_hd)
       (simp add: py_index_def)
  have h: "\<And>s. handle_request w s =
           (if request = [] then Returns () else Raises IndexError, s,
            if request = [] then [Recv Client (first_read w), Close Client]
            else [Recv Client (first_read w)])"
    using assms(1) u by (simp add: handle_request_def)
  have "start (before @ w # after) s =
           (case start (before @ after) s of
              (r, s', evs) \<Rightarrow>
                (r, s',
                 take (length before) evs @
                 [if request = [] then [Recv Client (first_read w), Close Client]
                  else [Recv Client (first_read w)]] @
                 drop (length before) evs))"
    by (rule start_insert) (rule h)
  with u h [of s] show ?thesis by simp
qed

text \<open>
  A fetch, then the request \<^verbatim>\<open>GET\<close> followed by a no-break space, then a
  \<^verbatim>\<open>CONNECT\<close>: the first and the third are served.
\<close>

theorem malformed_request_raises_witness:
  "py_decode (PyBytes (first_read (example_world one_token_request []))) = Inr [71, 69, 84, 160]
   \<and> length (str_split (hd (str_lines [71, 69, 84, 160]))) < 2
   \<and> get_url [71, 69, 84, 160] = Inl IndexError
   \<and> handle_request (example_world one_token_request []) cached_server =
       (Raises IndexError, cached_server, [Recv Client (''GET'' @ [CHR 0xC2, CHR 0xA0])])
   \<and> start [example_world get_request [not_modified],
             example_world one_token_request [],
             example_world connect_request []] cached_server =
       (Blocks, cached_server,
        [[Recv Client get_request,
          Connect [101, 120, 97, 109, 112, 108, 101, 46, 99, 111, 109] 80,
          Sendall Origin probe_request,
          Recv Origin not_modified, Close Origin,
          Sendall Client (''HTTP/1.1 200 OK'' @ [CHR 0x0D, CHR 0x0A, CHR 0x0D, CHR 0x0A] @ ''OLD''),
          Close Client],
         [Recv Client (''GET'' @ [CHR 0xC2, CHR 0xA0])],
         [Recv Client connect_request,
          Connect [101, 120, 97, 109, 112, 108, 101, 46, 99, 111, 109] 443,
          Send Client (''HTTP/1.1 200 Connection Established'' @
                       [CHR 0x0D, CHR 0x0A, CHR 0x0D, CHR 0x0A]),
          Recv Client ''hello'', Send Origin ''hello'', Recv Origin ''world'', Send Client ''world'',
          Recv Client [], Close Client, Close Origin, Close Client]])"
proof -
  have h1: "py_decode (PyBytes (first_read (example_world one_token_request []))) =
      Inr [71, 69, 84, 160]"
    by (simp add: example_defs text_defs)
  have h2: "length (str_split (hd (str_lines [71, 69, 84, 160]))) < 2"
    by (simp add: text_defs)
  have a: "handle_request (example_world get_request [not_modified]) cached_server =
       (Returns (), cached_server,
        [Recv Client get_request,
         Connect [101, 120, 97, 109, 112, 108, 101, 46, 99, 111, 109] 80,
         Sendall Origin probe_request,
         Recv Origin not_modified, Close Origin,
         Sendall Client (''HTTP/1.1 200 OK'' @ [CHR 0x0D, CHR 0x0A, CHR 0x0D, CHR 0x0A] @ ''OLD''),
         Close Client])"
    by (simp add: handler_defs example_defs text_defs)
  have b: "handle_request (example_world connect_request []) cached_server =
       (Returns (), cached_server,
        [Recv Client connect_request,
         Connect [101, 120, 97, 109, 112, 108, 101, 46, 99, 111, 109] 443,
         Send Client (''HTTP/1.1 200 Connection Established'' @
                      [CHR 0x0D, CHR 0x0A, CHR 0x0D, CHR 0x0A]),
         Recv Client ''hello'', Send Origin ''hello'', Recv Origin ''world'', Send Client ''world'',
         Recv Client [], Close Client, Close Origin, Close Client])"
    by (simp add: handler_defs example_defs text_defs)
  show ?thesis
    using malformed_request_raises [OF h1 h2, of cached_server
        "[example_world get_request [not_modified]]" "[example_world connect_request []]"]
      h1 h2 a b
    by (simp add: example_world_def one_token_request_def)
qed

text \<open>
  C4, as stated, asks for the client connection to be closed. On the request
  \<^verbatim>\<open>GET\<close> the handler never calls \<^verbatim>\<open>close\<close>.
\<close>

theorem malformed_request_is_not_closed:
  "py_decode (PyBytes (first_read (example_world ''GET'' []))) = Inr [71, 69, 84]
   \<and> length (str_split (hd (str_lines [71, 69, 84]))) < 2
   \<and> handle_request (example_world ''GET'' []) cached_server =
       (Raises IndexError, cached_server, [Recv Client ''GET''])
   \<and> Close Client \<notin> set (snd (snd (handle_request (example_world ''GET'' []) cached_server)))"
  by (simp add: handler_defs example_defs text_defs)

end
